theory Spec2Isabelle
  imports Main "HOL-Library.AList"
begin

section \<open>Data model of planner.py\<close>

text \<open>
  Values that come out of \<^verbatim>\<open>json.loads\<close> and that handlers return (Python's \<^verbatim>\<open>Any\<close>):
  \<open>JNull\<close> is Python's \<^verbatim>\<open>None\<close>, a \<^verbatim>\<open>dict\<close> is an association list read with
  \<open>map_of\<close>, its keys distinct as \<^verbatim>\<open>json.loads\<close> leaves them. Numbers are integers
  here: the planner only stores and compares them, and a reply with a fractional number
  is not covered.
\<close>

datatype json =
    JNull
  | JBool bool
  | JNum int
  | JStr string
  | JArr "json list"
  | JObj "(string \<times> json) list"

datatype StepStatus = PENDING | READY | EXECUTING | COMPLETED | FAILED | NEEDS_TOOL

datatype Complexity = ATOMIC | SIMPLE | MODERATE | COMPLEX

record ToolCapability =
  name :: string
  cap_description :: string
  input_schema :: json
  output_schema :: json
  examples :: "string list"

text \<open>
  \<^verbatim>\<open>PlanStep\<close>. The dataclass declares \<^verbatim>\<open>id: str\<close>, \<^verbatim>\<open>tool: Optional[str]\<close>,
  \<^verbatim>\<open>depends_on: list[str]\<close>, \<^verbatim>\<open>deferred_requirements: list[dict]\<close>, but the constructor
  checks nothing and \<^verbatim>\<open>create_plan\<close> passes it whatever the parsed reply holds, so every
  field that comes from the reply is a \<open>json\<close> value here. The fields \<^verbatim>\<open>id\<close> and \<^verbatim>\<open>error\<close>
  are \<open>step_id\<close> and \<open>error\<close>; \<^verbatim>\<open>error\<close> is only ever \<^verbatim>\<open>None\<close> or a \<^verbatim>\<open>str(e)\<close>.
\<close>

record PlanStep =
  step_id :: json
  description :: json
  tool :: json
  tool_input :: json
  expected_output :: json
  status :: StepStatus
  depends_on :: json
  output_data :: json
  error :: "string option"
  deferred_requirements :: json

record Plan =
  plan_id :: string
  goal :: string
  complexity :: Complexity
  steps :: "PlanStep list"
  created_at :: nat
  plan_context :: "(string \<times> json) list"

text \<open>
  The planner object: \<^verbatim>\<open>self.memory\<close>, \<^verbatim>\<open>self.model\<close>, \<^verbatim>\<open>self.tools\<close>, \<^verbatim>\<open>self.plans\<close>.
  Both dictionaries keep insertion order, so they are association lists updated with
  \<open>AList.update\<close> (an existing key keeps its place, a new key goes to the end).
  \<open>ollama\<close> is the state of the \<^verbatim>\<open>ollama\<close> client module the planner calls; \<open>memory\<close> is
  the memory service with its database connection, where \<^verbatim>\<open>_save_plan_to_db\<close> writes.
\<close>

record ('l, 'm) Planner =
  memory :: 'm
  model :: string
  tools :: "(string \<times> ToolCapability) list"
  plans :: "(string \<times> Plan) list"
  ollama :: 'l

text \<open>
  The dictionary \<^verbatim>\<open>_get_execution_context\<close> returns. The keys of \<^verbatim>\<open>dep_outputs\<close> are the
  entries of \<^verbatim>\<open>step.depends_on\<close>, of any hashable kind.
\<close>

record ExecutionContext =
  plan_goal :: string
  ctx_step :: PlanStep
  dependency_outputs :: "(json \<times> json) list"
  ctx_plan_context :: "(string \<times> json) list"

text \<open>
  The exceptions the planner raises or lets through. \<open>ValueError_no_json\<close> is
  \<^verbatim>\<open>ValueError("LLM did not return valid JSON")\<close>, \<open>ValueError_missing_fields\<close> is
  \<^verbatim>\<open>ValueError("Missing required fields in plan: ...")\<close>, \<open>ValueError_complexity\<close> is what
  \<^verbatim>\<open>Complexity(data["complexity"])\<close> raises on a value that is no member, \<open>ChatError\<close> and
  \<open>StoreError\<close> are whatever \<^verbatim>\<open>ollama.chat\<close> and \<^verbatim>\<open>_save_plan_to_db\<close> raise.
  \<open>TypeError\<close>, \<open>KeyError\<close> and \<open>AttributeError\<close> are raised by the interpreter on a value
  of the wrong kind.
\<close>

datatype exn =
    ChatError string
  | ValueError_no_json
  | JSONDecodeError
  | ValueError_missing_fields
  | TypeError
  | KeyError
  | AttributeError
  | ValueError_complexity
  | StoreError string

text \<open>
  What lies outside planner.py: \<^verbatim>\<open>json.loads\<close>, and the calls into \<^verbatim>\<open>ollama\<close>, the embedding
  model and the memory service. A call either returns or raises \<^verbatim>\<open>Exception(text)\<close>
  (\<open>Inl text\<close>, or \<open>Some text\<close> for a call without a result), and may change the service.
  \<open>chat_planning\<close> stands for the call of \<^verbatim>\<open>ollama.chat\<close> in \<^verbatim>\<open>create_plan\<close> on the prompt built
  from the goal, the context and the tool manifest, up to \<^verbatim>\<open>response['message']['content']\<close>.
  \<open>execute_llm\<close>, \<open>execute_memory_search\<close> and \<open>execute_get_facts\<close> stand for the bodies of
  \<^verbatim>\<open>_execute_llm\<close>, \<^verbatim>\<open>_execute_memory_search\<close> and \<^verbatim>\<open>_execute_get_facts\<close>, which only format
  the arguments and results of such calls.
  Two functions of the interpreter are taken as given as well: \<open>str_exn\<close> is \<^verbatim>\<open>str(e)\<close> for
  an exception the interpreter raised, and \<open>py_repr\<close> is the text an f-string gives for a
  list or a dictionary.
\<close>

record ('l, 'm) services =
  json_loads :: "string \<Rightarrow> json option"
  chat_planning ::
    "string \<Rightarrow> json option \<Rightarrow> (string \<times> ToolCapability) list \<Rightarrow> 'l \<Rightarrow> (string + string) \<times> 'l"
  execute_llm :: "PlanStep \<Rightarrow> ExecutionContext \<Rightarrow> 'l \<Rightarrow> (string + json) \<times> 'l"
  execute_memory_search :: "PlanStep \<Rightarrow> 'm \<Rightarrow> (string + json) \<times> 'm"
  execute_get_facts :: "PlanStep \<Rightarrow> 'm \<Rightarrow> (string + json) \<times> 'm"
  save_topic_fact :: "json \<Rightarrow> json \<Rightarrow> json \<Rightarrow> 'm \<Rightarrow> string option \<times> 'm"
  save_plan_to_db :: "Plan \<Rightarrow> 'm \<Rightarrow> string option \<times> 'm"
  str_exn :: "exn \<Rightarrow> string"
  py_repr :: "json \<Rightarrow> string"

section \<open>Python's operations on the values of a reply\<close>

text \<open>Sequencing: an exception ends the computation, a value is passed on.\<close>

definition on_value :: "exn + 'a \<Rightarrow> ('a \<Rightarrow> exn + 'b) \<Rightarrow> exn + 'b" where
  "on_value r f = (case r of Inl e \<Rightarrow> Inl e | Inr v \<Rightarrow> f v)"

text \<open>Python's truth value (\<^verbatim>\<open>if step.deferred_requirements:\<close>).\<close>

fun truthy :: "json \<Rightarrow> bool" where
  "truthy JNull = False"
| "truthy (JBool b) = b"
| "truthy (JNum n) = (n \<noteq> 0)"
| "truthy (JStr s) = (s \<noteq> [])"
| "truthy (JArr xs) = (xs \<noteq> [])"
| "truthy (JObj kvs) = (kvs \<noteq> [])"

text \<open>
  \<^verbatim>\<open>a == b\<close>: \<^verbatim>\<open>True\<close> equals 1 and \<^verbatim>\<open>False\<close> equals 0, lists are compared element by
  element, dictionaries key by key.
\<close>

fun py_eq :: "json \<Rightarrow> json \<Rightarrow> bool"
  and py_eq_list :: "json list \<Rightarrow> json list \<Rightarrow> bool"
  and py_eq_dict :: "(string \<times> json) list \<Rightarrow> (string \<times> json) list \<Rightarrow> bool" where
  "py_eq JNull b = (b = JNull)"
| "py_eq (JBool x) b =
     (case b of JBool y \<Rightarrow> x = y | JNum n \<Rightarrow> n = (if x then 1 else 0) | _ \<Rightarrow> False)"
| "py_eq (JNum m) b =
     (case b of JNum n \<Rightarrow> m = n | JBool y \<Rightarrow> m = (if y then 1 else 0) | _ \<Rightarrow> False)"
| "py_eq (JStr s) b = (b = JStr s)"
| "py_eq (JArr xs) b = (case b of JArr ys \<Rightarrow> py_eq_list xs ys | _ \<Rightarrow> False)"
| "py_eq (JObj d) b =
     (case b of JObj d' \<Rightarrow> length d = length d' \<and> py_eq_dict d d' | _ \<Rightarrow> False)"
| "py_eq_list [] ys = (ys = [])"
| "py_eq_list (x # xs) ys =
     (case ys of [] \<Rightarrow> False | y # ys' \<Rightarrow> py_eq x y \<and> py_eq_list xs ys')"
| "py_eq_dict [] d' = True"
| "py_eq_dict (kv # d) d' =
     (case map_of d' (fst kv) of
        None \<Rightarrow> False
      | Some v' \<Rightarrow> py_eq (snd kv) v' \<and> py_eq_dict d d')"

text \<open>\<^verbatim>\<open>hash(v)\<close> raises \<^verbatim>\<open>TypeError\<close> on a list and on a dictionary.\<close>

fun unhashable :: "json \<Rightarrow> bool" where
  "unhashable (JArr xs) = True"
| "unhashable (JObj d) = True"
| "unhashable v = False"

text \<open>\<^verbatim>\<open>v in s\<close> for a set \<open>s\<close>, given as the list of its elements.\<close>

definition py_in_set :: "json \<Rightarrow> json list \<Rightarrow> exn + bool" where
  "py_in_set v s = (if unhashable v then Inl TypeError else Inr (list_ex (py_eq v) s))"

text \<open>The values \<^verbatim>\<open>for x in v\<close> runs through.\<close>

fun py_iter :: "json \<Rightarrow> exn + json list" where
  "py_iter (JArr xs) = Inr xs"
| "py_iter (JStr s) = Inr (map (\<lambda>c. JStr [c]) s)"
| "py_iter (JObj d) = Inr (map (\<lambda>kv. JStr (fst kv)) d)"
| "py_iter v = Inl TypeError"

text \<open>\<^verbatim>\<open>d.get(key, default)\<close> on a dictionary.\<close>

definition dict_get :: "(string \<times> json) list \<Rightarrow> string \<Rightarrow> json \<Rightarrow> json" where
  "dict_get d k dflt = (case map_of d k of None \<Rightarrow> dflt | Some v \<Rightarrow> v)"

text \<open>\<^verbatim>\<open>data[key]\<close> for a string key: a list or a string takes integer indices only.\<close>

fun py_getitem :: "json \<Rightarrow> string \<Rightarrow> exn + json" where
  "py_getitem (JObj d) k = (case map_of d k of None \<Rightarrow> Inl KeyError | Some v \<Rightarrow> Inr v)"
| "py_getitem v k = Inl TypeError"

text \<open>\<^verbatim>\<open>str(n)\<close> for an integer, and the text an f-string gives for a value.\<close>

fun str_nat :: "nat \<Rightarrow> string" where
  "str_nat n =
     (if n < 10 then [char_of (48 + n)]
      else str_nat (n div 10) @ [char_of (48 + n mod 10)])"

definition str_int :: "int \<Rightarrow> string" where
  "str_int n = (if n < 0 then CHR ''-'' # str_nat (nat (- n)) else str_nat (nat n))"

definition py_str :: "('l, 'm) services \<Rightarrow> json \<Rightarrow> string" where
  "py_str E v =
     (case v of
        JStr s \<Rightarrow> s
      | JNull \<Rightarrow> ''None''
      | JBool b \<Rightarrow> (if b then ''True'' else ''False'')
      | JNum n \<Rightarrow> str_int n
      | _ \<Rightarrow> py_repr E v)"

subsection \<open>Strings\<close>

text \<open>
  A \<open>char\<close> is read as a code point below 256. \<^verbatim>\<open>str.isspace\<close> holds there for the
  code points 9 to 13, 28 to 32, 133 and 160.
\<close>

definition is_space :: "char \<Rightarrow> bool" where
  "is_space c = ((of_char c :: nat) \<in> set [9, 10, 11, 12, 13, 28, 29, 30, 31, 32, 133, 160])"

definition strip :: "string \<Rightarrow> string" where
  "strip s = rev (dropWhile is_space (rev (dropWhile is_space s)))"

definition startswith :: "string \<Rightarrow> string \<Rightarrow> bool" where
  "startswith s p = (take (length p) s = p)"

text \<open>\<^verbatim>\<open>p in s\<close> on strings.\<close>

fun contains :: "string \<Rightarrow> string \<Rightarrow> bool" where
  "contains [] p = (p = [])"
| "contains (c # cs) p = (startswith (c # cs) p \<or> contains cs p)"

text \<open>\<^verbatim>\<open>text.split("\n")\<close> and \<^verbatim>\<open>"\n".join(lines)\<close>\<close>

fun split_lines :: "string \<Rightarrow> string list" where
  "split_lines [] = [[]]"
| "split_lines (c # cs) =
     (if c = CHR 0x0A then [] # split_lines cs
      else (case split_lines cs of
              [] \<Rightarrow> [[c]]
            | l # ls \<Rightarrow> (c # l) # ls))"

fun join_lines :: "string list \<Rightarrow> string" where
  "join_lines [] = []"
| "join_lines [l] = l"
| "join_lines (l # ls) = l @ [CHR 0x0A] @ join_lines ls"

text \<open>\<^verbatim>\<open>text[a:b]\<close> for \<open>0 \<le> a\<close>, \<open>0 \<le> b\<close>\<close>

definition slice :: "string \<Rightarrow> nat \<Rightarrow> nat \<Rightarrow> string" where
  "slice s a b = take (b - a) (drop a s)"

text \<open>\<^verbatim>\<open>key in data\<close> for a string key: on a dictionary, a list and a string.\<close>

fun py_in :: "string \<Rightarrow> json \<Rightarrow> exn + bool" where
  "py_in k (JObj d) = Inr (map_of d k \<noteq> None)"
| "py_in k (JArr xs) = Inr (JStr k \<in> set xs)"
| "py_in k (JStr s) = Inr (contains s k)"
| "py_in k v = Inl TypeError"

section \<open>Capability registry\<close>

definition register_tool ::
  "ToolCapability \<Rightarrow> ('l, 'm) Planner \<Rightarrow> ('l, 'm) Planner" where
  "register_tool capability P = P\<lparr>tools := AList.update (name capability) capability (tools P)\<rparr>"

text \<open>\<^verbatim>\<open>_register_builtin_tools\<close> and \<^verbatim>\<open>Planner.__init__\<close>\<close>

definition register_builtin_tools :: "('l, 'm) Planner \<Rightarrow> ('l, 'm) Planner" where
  "register_builtin_tools P =
     register_tool
       \<lparr>name = ''memory_save_fact'',
        cap_description = ''Save a new fact to memory under a topic'',
        input_schema = JObj [(''topic_name'', JStr ''string''),
                             (''fact_type'', JStr ''WHO|WHAT|WHEN|WHERE|WHY|HOW''),
                             (''fact'', JStr ''string'')],
        output_schema = JObj [(''success'', JStr ''boolean'')],
        examples = [''Save that user likes coffee'', ''Remember user's birthday'']\<rparr>
    (register_tool
       \<lparr>name = ''memory_get_facts'',
        cap_description = ''Get all facts about a specific topic'',
        input_schema = JObj [(''topic_name'', JStr ''string'')],
        output_schema = JObj [(''facts'', JStr ''list of {type, content, locked}'')],
        examples = [''Get facts about Jazz Guitar'', ''What do I know about Python'']\<rparr>
    (register_tool
       \<lparr>name = ''memory_search_topics'',
        cap_description = ''Search Selene's memory for topics by keyword or semantic similarity'',
        input_schema = JObj [(''query'', JStr ''string''), (''limit'', JStr ''int (default 5)'')],
        output_schema = JObj [(''topics'', JStr ''list of {name, description, facts}'')],
        examples = [''Find topics about music'', ''Search for coding discussions'']\<rparr>
    (register_tool
       \<lparr>name = ''llm_generate'',
        cap_description =
          ''General text generation and reasoning. Use when no specialized tool needed.'',
        input_schema = JObj [(''prompt'', JStr ''string''), (''context'', JStr ''optional dict'')],
        output_schema = JObj [(''response'', JStr ''string'')],
        examples = [''Answer a question'', ''Summarize text'', ''Analyze and explain'']\<rparr>
       P)))"

definition init_planner :: "'m \<Rightarrow> string \<Rightarrow> 'l \<Rightarrow> ('l, 'm) Planner" where
  "init_planner mem mdl l =
     register_builtin_tools \<lparr>memory = mem, model = mdl, tools = [], plans = [], ollama = l\<rparr>"

section \<open>Step state machine\<close>

text \<open>
  \<^verbatim>\<open>completed = {s.id for s in plan.steps if s.status == StepStatus.COMPLETED}\<close>: the set is
  built step by step, and adding an id that is a list or a dictionary raises.
\<close>

fun completed_ids :: "PlanStep list \<Rightarrow> exn + json list" where
  "completed_ids [] = Inr []"
| "completed_ids (s # ss) =
     (if status s = COMPLETED then
        (if unhashable (step_id s) then Inl TypeError
         else on_value (completed_ids ss) (\<lambda>ids. Inr (step_id s # ids)))
      else completed_ids ss)"

text \<open>
  \<^verbatim>\<open>name not in self.tools\<close>: the keys of the registry are strings, so \<^verbatim>\<open>None\<close> (a missing
  name), a number and a boolean are no key of it; a list or a dictionary cannot be hashed.
\<close>

definition not_in_tools :: "json \<Rightarrow> (string \<times> ToolCapability) list \<Rightarrow> exn + bool" where
  "not_in_tools v ts =
     (if unhashable v then Inl TypeError
      else Inr (case v of JStr n \<Rightarrow> map_of ts n = None | _ \<Rightarrow> True))"

text \<open>
  \<^verbatim>\<open>unmet = [r for r in step.deferred_requirements
            if r.get("type") == "tool" and r.get("name") not in self.tools]\<close>.
  Every entry is asked for its \<^verbatim>\<open>get\<close>, which only a dictionary has.
\<close>

fun unmet_loop :: "(string \<times> ToolCapability) list \<Rightarrow> json list \<Rightarrow> exn + json list" where
  "unmet_loop ts [] = Inr []"
| "unmet_loop ts (r # rs) =
     (case r of
        JObj d \<Rightarrow>
          (if py_eq (dict_get d ''type'' JNull) (JStr ''tool'') then
             on_value (not_in_tools (dict_get d ''name'' JNull) ts) (\<lambda>missing.
             on_value (unmet_loop ts rs) (\<lambda>others.
               Inr (if missing then r # others else others)))
           else unmet_loop ts rs)
      | _ \<Rightarrow> Inl AttributeError)"

definition unmet :: "(string \<times> ToolCapability) list \<Rightarrow> json \<Rightarrow> exn + json list" where
  "unmet ts reqs = on_value (py_iter reqs) (unmet_loop ts)"

text \<open>
  \<^verbatim>\<open>all(dep in completed for dep in step.depends_on)\<close>: it stops at the first entry that
  is not in the set, and raises on an entry that cannot be hashed if it gets there.
\<close>

fun all_in_loop :: "json list \<Rightarrow> json list \<Rightarrow> exn + bool" where
  "all_in_loop completed [] = Inr True"
| "all_in_loop completed (dep # deps) =
     on_value (py_in_set dep completed) (\<lambda>found.
       if found then all_in_loop completed deps else Inr False)"

definition all_in :: "json list \<Rightarrow> json \<Rightarrow> exn + bool" where
  "all_in completed deps = on_value (py_iter deps) (all_in_loop completed)"

text \<open>
  The body of the loop of \<^verbatim>\<open>_update_ready_status\<close> for one step: the step with its new
  status, or the exception raised before any write to it.
\<close>

definition update_step ::
  "(string \<times> ToolCapability) list \<Rightarrow> json list \<Rightarrow> PlanStep \<Rightarrow> exn + PlanStep" where
  "update_step ts completed step =
     (if status step \<noteq> PENDING then Inr step
      else
        on_value (if truthy (deferred_requirements step)
                  then unmet ts (deferred_requirements step) else Inr []) (\<lambda>unmet_reqs.
        if unmet_reqs \<noteq> [] then Inr (step\<lparr>status := NEEDS_TOOL\<rparr>)
        else
          on_value (all_in completed (depends_on step)) (\<lambda>ready.
            Inr (if ready then step\<lparr>status := READY\<rparr> else step))))"

text \<open>
  The loop over \<^verbatim>\<open>plan.steps\<close>. The steps are mutated in place, so when the body raises
  at one step the steps before it keep their new status and the rest is untouched.
\<close>

fun update_loop ::
  "(string \<times> ToolCapability) list \<Rightarrow> json list \<Rightarrow> PlanStep list \<Rightarrow> exn option \<times> PlanStep list"
  where
  "update_loop ts completed [] = (None, [])"
| "update_loop ts completed (s # ss) =
     (case update_step ts completed s of
        Inl e \<Rightarrow> (Some e, s # ss)
      | Inr s' \<Rightarrow> (case update_loop ts completed ss of (r, ss') \<Rightarrow> (r, s' # ss')))"

text \<open>
  \<^verbatim>\<open>_update_ready_status\<close>: \<open>None\<close> when the pass returns, \<open>Some e\<close> when it raises \<open>e\<close>,
  with the plan as the pass leaves it. \<^verbatim>\<open>completed\<close> is computed once, before the loop.
\<close>

definition update_ready_status ::
  "(string \<times> ToolCapability) list \<Rightarrow> Plan \<Rightarrow> exn option \<times> Plan" where
  "update_ready_status ts plan =
     (case completed_ids (steps plan) of
        Inl e \<Rightarrow> (Some e, plan)
      | Inr completed \<Rightarrow>
          (case update_loop ts completed (steps plan) of
             (r, ss') \<Rightarrow> (r, plan\<lparr>steps := ss'\<rparr>)))"

text \<open>
  \<^verbatim>\<open>get_next_steps\<close>: the pass mutates the plan object held in \<^verbatim>\<open>self.plans\<close>; the result is
  the list of the steps that are \<^verbatim>\<open>READY\<close> after it, or the exception of the pass.
\<close>

definition get_next_steps ::
  "string \<Rightarrow> ('l, 'm) Planner \<Rightarrow> (exn + PlanStep list) \<times> ('l, 'm) Planner" where
  "get_next_steps pid P =
     (case map_of (plans P) pid of
        None \<Rightarrow> (Inr [], P)
      | Some plan \<Rightarrow>
          (case update_ready_status (tools P) plan of
             (Some e, plan') \<Rightarrow> (Inl e, P\<lparr>plans := AList.update pid plan' (plans P)\<rparr>)
           | (None, plan') \<Rightarrow>
               (Inr (filter (\<lambda>s. status s = READY) (steps plan')),
                P\<lparr>plans := AList.update pid plan' (plans P)\<rparr>)))"

section \<open>Execution engine\<close>

text \<open>\<^verbatim>\<open>next((s for s in plan.steps if s.id == step_id), None)\<close>, as the position of that step.\<close>

fun find_step :: "json \<Rightarrow> PlanStep list \<Rightarrow> nat option" where
  "find_step sid [] = None"
| "find_step sid (s # ss) =
     (if py_eq (step_id s) sid then Some 0 else map_option Suc (find_step sid ss))"

text \<open>\<^verbatim>\<open>d[k] = v\<close> on a dictionary whose keys are values of a reply.\<close>

fun set_item :: "json \<Rightarrow> json \<Rightarrow> (json \<times> json) list \<Rightarrow> (json \<times> json) list" where
  "set_item k v [] = [(k, v)]"
| "set_item k v (kv # d) =
     (if py_eq (fst kv) k then (fst kv, v) # d else kv # set_item k v d)"

text \<open>
  \<^verbatim>\<open>_get_execution_context\<close>: the loop over \<^verbatim>\<open>step.depends_on\<close> raises when that is not
  iterable, and when an entry that names a step with an output cannot be hashed.
\<close>

fun dep_outputs_loop ::
  "PlanStep list \<Rightarrow> json list \<Rightarrow> (json \<times> json) list \<Rightarrow> exn + (json \<times> json) list" where
  "dep_outputs_loop ss [] acc = Inr acc"
| "dep_outputs_loop ss (dep_id # rest) acc =
     (case find_step dep_id ss of
        None \<Rightarrow> dep_outputs_loop ss rest acc
      | Some i \<Rightarrow>
          (if truthy (output_data (ss ! i)) then
             (if unhashable dep_id then Inl TypeError
              else dep_outputs_loop ss rest (set_item dep_id (output_data (ss ! i)) acc))
           else dep_outputs_loop ss rest acc))"

definition get_execution_context :: "Plan \<Rightarrow> PlanStep \<Rightarrow> exn + ExecutionContext" where
  "get_execution_context plan step =
     on_value (py_iter (depends_on step)) (\<lambda>deps.
     on_value (dep_outputs_loop (steps plan) deps []) (\<lambda>dep_outputs.
       Inr \<lparr>plan_goal = goal plan,
            ctx_step = step,
            dependency_outputs = dep_outputs,
            ctx_plan_context = plan_context plan\<rparr>))"

text \<open>
  \<^verbatim>\<open>_execute_save_fact\<close>: the three reads are outside the inner \<^verbatim>\<open>try\<close> and raise
  \<^verbatim>\<open>AttributeError\<close> when \<^verbatim>\<open>step.tool_input\<close> is no dictionary; whatever
  \<^verbatim>\<open>save_topic_fact\<close> raises is turned into a payload.
\<close>

definition execute_save_fact ::
  "('l, 'm) services \<Rightarrow> PlanStep \<Rightarrow> 'm \<Rightarrow> (string + json) \<times> 'm" where
  "execute_save_fact E step m =
     (case tool_input step of
        JObj d \<Rightarrow>
          (let topic = dict_get d ''topic_name'' (JStr '''');
               fact_type = dict_get d ''fact_type'' (JStr ''WHAT'');
               fact = dict_get d ''fact'' (JStr '''')
           in case save_topic_fact E topic fact_type fact m of
                (None, m') \<Rightarrow> (Inr (JObj [(''success'', JBool True)]), m')
              | (Some e, m') \<Rightarrow>
                  (Inr (JObj [(''success'', JBool False), (''error'', JStr e)]), m'))
      | _ \<Rightarrow> (Inl (str_exn E AttributeError), m))"

text \<open>
  The dispatch inside the \<^verbatim>\<open>try\<close> of \<^verbatim>\<open>execute_step\<close>: \<open>Inr result\<close> when the handler
  returns, \<open>Inl text\<close> when it raises, \<open>text\<close> being \<^verbatim>\<open>str(e)\<close>. The result comes with the
  two services as the handler leaves them. \<^verbatim>\<open>step.tool == "llm_generate"\<close> holds for that
  string only.
\<close>

definition dispatch ::
  "('l, 'm) services \<Rightarrow> PlanStep \<Rightarrow> ExecutionContext \<Rightarrow> 'l \<Rightarrow> 'm \<Rightarrow> (string + json) \<times> 'l \<times> 'm" where
  "dispatch E step ctx l m =
     (if tool step = JStr ''llm_generate'' \<or> tool step = JNull then
        (case execute_llm E step ctx l of (r, l') \<Rightarrow> (r, l', m))
      else if tool step = JStr ''memory_search_topics'' then
        (case execute_memory_search E step m of (r, m') \<Rightarrow> (r, l, m'))
      else if tool step = JStr ''memory_get_facts'' then
        (case execute_get_facts E step m of (r, m') \<Rightarrow> (r, l, m'))
      else if tool step = JStr ''memory_save_fact'' then
        (case execute_save_fact E step m of (r, m') \<Rightarrow> (r, l, m'))
      else
        (Inr (JStr (''Tool '' @ [CHR 0x27] @ py_str E (tool step) @ [CHR 0x27]
                    @ '' not implemented yet'')),
         l, m))"

text \<open>
  The statements of the \<^verbatim>\<open>try\<close> of \<^verbatim>\<open>execute_step\<close> up to the assignment of \<^verbatim>\<open>result\<close>:
  building the context, then the dispatch.
\<close>

definition run_handler ::
  "('l, 'm) services \<Rightarrow> Plan \<Rightarrow> PlanStep \<Rightarrow> 'l \<Rightarrow> 'm \<Rightarrow> (string + json) \<times> 'l \<times> 'm" where
  "run_handler E plan step l m =
     (case get_execution_context plan step of
        Inl e \<Rightarrow> (Inl (str_exn E e), l, m)
      | Inr ctx \<Rightarrow> dispatch E step ctx l m)"

text \<open>
  \<^verbatim>\<open>execute_step\<close>. The value returned is the handler's result, or \<open>JNull\<close> for Python's
  \<^verbatim>\<open>None\<close>. The step found is mutated in place, so the plan in the table changes at that
  position. The three writes of the success branch and the readiness pass after them are
  inside the \<^verbatim>\<open>try\<close>: when the pass raises, the \<^verbatim>\<open>except\<close> branch runs on the step that
  has just been marked \<^verbatim>\<open>COMPLETED\<close>, with the plan as the pass left it.
\<close>

definition execute_step ::
  "('l, 'm) services \<Rightarrow> string \<Rightarrow> json \<Rightarrow> ('l, 'm) Planner \<Rightarrow> json \<times> ('l, 'm) Planner" where
  "execute_step E pid sid P =
     (case map_of (plans P) pid of
        None \<Rightarrow> (JNull, P)
      | Some plan \<Rightarrow>
          (case find_step sid (steps plan) of
             None \<Rightarrow> (JNull, P)
           | Some i \<Rightarrow>
               (if status (steps plan ! i) \<noteq> READY then (JNull, P)
                else
                  (let step1 = (steps plan ! i)\<lparr>status := EXECUTING\<rparr>;
                       plan1 = plan\<lparr>steps := (steps plan)[i := step1]\<rparr>
                   in case run_handler E plan1 step1 (ollama P) (memory P) of
                        (Inr result, l', m') \<Rightarrow>
                          (let step2 = step1\<lparr>status := COMPLETED, output_data := result\<rparr>;
                               plan2 = plan1\<lparr>steps := (steps plan1)[i := step2],
                                             plan_context :=
                                               AList.update (''output_'' @ py_str E sid) result
                                                 (plan_context plan1)\<rparr>
                           in case update_ready_status (tools P) plan2 of
                                (None, plan3) \<Rightarrow>
                                  (result,
                                   P\<lparr>ollama := l', memory := m',
                                      plans := AList.update pid plan3 (plans P)\<rparr>)
                              | (Some e, plan3) \<Rightarrow>
                                  (let step3 = (steps plan3 ! i)\<lparr>status := FAILED,
                                                                 error := Some (str_exn E e)\<rparr>;
                                       plan4 = plan3\<lparr>steps := (steps plan3)[i := step3]\<rparr>
                                   in (JNull,
                                       P\<lparr>ollama := l', memory := m',
                                          plans := AList.update pid plan4 (plans P)\<rparr>)))
                      | (Inl e, l', m') \<Rightarrow>
                          (let step2 = step1\<lparr>status := FAILED, error := Some e\<rparr>;
                               plan2 = plan1\<lparr>steps := (steps plan1)[i := step2]\<rparr>
                           in (JNull,
                               P\<lparr>ollama := l', memory := m',
                                  plans := AList.update pid plan2 (plans P)\<rparr>))))))"

text \<open>
  \<^verbatim>\<open>execute_full_plan\<close>. One wave is the \<^verbatim>\<open>for\<close> loop over the steps that
  \<^verbatim>\<open>get_next_steps\<close> returned: each is looked up again by its id and executed, and a pair
  (description, result) is appended to \<^verbatim>\<open>results\<close>.
\<close>

fun run_wave ::
  "('l, 'm) services \<Rightarrow> string \<Rightarrow> PlanStep list \<Rightarrow> (json \<times> json) list \<Rightarrow> ('l, 'm) Planner
     \<Rightarrow> (json \<times> json) list \<times> ('l, 'm) Planner" where
  "run_wave E pid [] results P = (results, P)"
| "run_wave E pid (step # rest) results P =
     (case execute_step E pid (step_id step) P of
        (result, P') \<Rightarrow> run_wave E pid rest (results @ [(description step, result)]) P')"

text \<open>
  \<^verbatim>\<open>while next_steps := self.get_next_steps(plan_id): ...\<close>. The loop need not end, so it is
  a partial function: \<open>None\<close> means that it runs forever. It ends with \<open>Inl e\<close> when
  \<^verbatim>\<open>get_next_steps\<close> raises \<open>e\<close>.
\<close>

partial_function (option) wave_loop ::
  "('l, 'm) services \<Rightarrow> string \<Rightarrow> (json \<times> json) list \<Rightarrow> ('l, 'm) Planner
     \<Rightarrow> ((exn + (json \<times> json) list) \<times> ('l, 'm) Planner) option" where
  "wave_loop E pid results P =
     (case get_next_steps pid P of
        (Inl e, P1) \<Rightarrow> Some (Inl e, P1)
      | (Inr next_steps, P1) \<Rightarrow>
          (if next_steps = [] then Some (Inr results, P1)
           else (case run_wave E pid next_steps results P1 of
                   (results', P2) \<Rightarrow> wave_loop E pid results' P2)))"

text \<open>
  \<^verbatim>\<open>plan.to_readable()\<close> joins the entries of \<^verbatim>\<open>step.depends_on\<close> when that is not empty:
  \<^verbatim>\<open>', '.join(v)\<close> raises \<^verbatim>\<open>TypeError\<close> unless \<open>v\<close> is an iterable of strings.
\<close>

fun join_raises :: "json \<Rightarrow> bool" where
  "join_raises (JArr xs) = list_ex (\<lambda>x. case x of JStr s \<Rightarrow> False | _ \<Rightarrow> True) xs"
| "join_raises (JStr s) = False"
| "join_raises (JObj d) = False"
| "join_raises v = True"

definition to_readable_raises :: "Plan \<Rightarrow> bool" where
  "to_readable_raises plan =
     list_ex (\<lambda>s. truthy (depends_on s) \<and> join_raises (depends_on s)) (steps plan)"

text \<open>
  The dictionary \<^verbatim>\<open>execute_full_plan\<close> returns. \<open>final_plan\<close> is the plan that
  \<^verbatim>\<open>plan.to_readable()\<close> renders, as it stands in the table after the loop.
\<close>

datatype full_plan_result =
    PlanNotFound
  | PlanResult (res_plan_id: string) (res_goal: string) (res_results: "(json \<times> json) list")
      (final_plan: "Plan option")

definition execute_full_plan ::
  "('l, 'm) services \<Rightarrow> string \<Rightarrow> ('l, 'm) Planner
     \<Rightarrow> ((exn + full_plan_result) \<times> ('l, 'm) Planner) option" where
  "execute_full_plan E pid P =
     (case map_of (plans P) pid of
        None \<Rightarrow> Some (Inr PlanNotFound, P)
      | Some plan \<Rightarrow>
          (case wave_loop E pid [] P of
             None \<Rightarrow> None
           | Some (Inl e, P') \<Rightarrow> Some (Inl e, P')
           | Some (Inr results, P') \<Rightarrow>
               (if (case map_of (plans P') pid of
                      None \<Rightarrow> False
                    | Some plan' \<Rightarrow> to_readable_raises plan')
                then Some (Inl TypeError, P')
                else Some (Inr (PlanResult pid (goal plan) results (map_of (plans P') pid)),
                           P'))))"

section \<open>Plan generator\<close>

subsection \<open>\<^verbatim>\<open>_extract_json\<close>\<close>

text \<open>Try 2: the loop that collects the lines between the fence lines.\<close>

fun fence_loop :: "string list \<Rightarrow> bool \<Rightarrow> string list \<Rightarrow> string list" where
  "fence_loop [] in_code json_lines = json_lines"
| "fence_loop (line # lines) in_code json_lines =
     (if startswith (strip line) ''```'' then fence_loop lines (\<not> in_code) json_lines
      else if in_code then fence_loop lines in_code (json_lines @ [line])
      else fence_loop lines in_code json_lines)"

definition try_fences :: "(string \<Rightarrow> json option) \<Rightarrow> string \<Rightarrow> string option" where
  "try_fences loads text =
     (if contains text ''```json'' \<or> contains text ''```'' then
        (let json_lines = fence_loop (split_lines text) False []
         in if json_lines \<noteq> [] then
              (let potential = join_lines json_lines
               in if loads potential \<noteq> None then Some potential else None)
            else None)
      else None)"

text \<open>
  Try 3: the scan over \<^verbatim>\<open>enumerate(text)\<close>; \<open>i\<close> is the index of the first character of
  \<open>rest\<close>. \<^verbatim>\<open>brace_count\<close> is an integer and can go below zero.
\<close>

fun brace_loop ::
  "(string \<Rightarrow> json option) \<Rightarrow> string \<Rightarrow> nat \<Rightarrow> string \<Rightarrow> int \<Rightarrow> nat option \<Rightarrow> string option" where
  "brace_loop loads text i [] brace_count start_idx = None"
| "brace_loop loads text i (c # rest) brace_count start_idx =
     (if c = CHR ''{'' then
        brace_loop loads text (i + 1) rest (brace_count + 1)
          (if brace_count = 0 then Some i else start_idx)
      else if c = CHR ''}'' then
        (case (if brace_count - 1 = 0 then start_idx else None) of
           Some start \<Rightarrow>
             (let potential = slice text start (i + 1)
              in if loads potential \<noteq> None then Some potential
                 else brace_loop loads text (i + 1) rest (brace_count - 1) start_idx)
         | None \<Rightarrow> brace_loop loads text (i + 1) rest (brace_count - 1) start_idx)
      else brace_loop loads text (i + 1) rest brace_count start_idx)"

text \<open>
  Try 4: \<^verbatim>\<open>re.findall(r'\{[\s\S]*\}', text)\<close>. The star is greedy and \<^verbatim>\<open>[\s\S]\<close> matches
  every character, so the first match runs from the first \<^verbatim>\<open>{\<close> to the last \<^verbatim>\<open>}\<close> of the
  text, and nothing after it can match; without a \<^verbatim>\<open>}\<close> after the first \<^verbatim>\<open>{\<close> there is
  no match.
\<close>

definition regex_findall :: "string \<Rightarrow> string list" where
  "regex_findall text =
     (let from_open = dropWhile (\<lambda>c. c \<noteq> CHR ''{'') text
      in if CHR ''}'' \<in> set from_open
         then [rev (dropWhile (\<lambda>c. c \<noteq> CHR ''}'') (rev from_open))]
         else [])"

fun first_parsing :: "(string \<Rightarrow> json option) \<Rightarrow> string list \<Rightarrow> string option" where
  "first_parsing loads [] = None"
| "first_parsing loads (m # ms) =
     (if loads m \<noteq> None then Some m else first_parsing loads ms)"

definition extract_json :: "(string \<Rightarrow> json option) \<Rightarrow> string \<Rightarrow> string" where
  "extract_json loads text =
     (if loads text \<noteq> None then text
      else (case try_fences loads text of
              Some potential \<Rightarrow> potential
            | None \<Rightarrow>
                (case brace_loop loads text 0 text 0 None of
                   Some potential \<Rightarrow> potential
                 | None \<Rightarrow>
                     (case first_parsing loads (regex_findall text) of
                        Some m \<Rightarrow> m
                      | None \<Rightarrow> []))))"

subsection \<open>\<^verbatim>\<open>create_plan\<close>\<close>

text \<open>
  \<^verbatim>\<open>PlanStep(id=s.get("id", f"step_{len(steps)+1}"), ...)\<close> for one raw step \<open>s\<close>, with
  \<open>n\<close> steps built so far. \<^verbatim>\<open>s.get\<close> raises \<^verbatim>\<open>AttributeError\<close> unless \<open>s\<close> is a
  dictionary; what it returns is stored as it is. The new step is \<^verbatim>\<open>PENDING\<close>, with no
  output and no error.
\<close>

fun make_step :: "nat \<Rightarrow> json \<Rightarrow> exn + PlanStep" where
  "make_step n (JObj s) =
     Inr \<lparr>step_id = dict_get s ''id'' (JStr (''step_'' @ str_nat (n + 1))),
          description = dict_get s ''description'' (JStr []),
          tool = dict_get s ''tool'' JNull,
          tool_input = dict_get s ''tool_input'' (JObj []),
          expected_output = dict_get s ''expected_output'' (JStr []),
          status = PENDING,
          depends_on = dict_get s ''depends_on'' (JArr []),
          output_data = JNull,
          error = None,
          deferred_requirements = dict_get s ''deferred_requirements'' (JArr [])\<rparr>"
| "make_step n v = Inl AttributeError"

text \<open>\<^verbatim>\<open>for s in data["steps"]: steps.append(PlanStep(...))\<close>\<close>

fun make_steps :: "json list \<Rightarrow> PlanStep list \<Rightarrow> exn + PlanStep list" where
  "make_steps [] steps_acc = Inr steps_acc"
| "make_steps (s # rest) steps_acc =
     (case make_step (length steps_acc) s of
        Inl e \<Rightarrow> Inl e
      | Inr step \<Rightarrow> make_steps rest (steps_acc @ [step]))"

text \<open>\<^verbatim>\<open>Complexity(value)\<close>\<close>

definition Complexity_of :: "json \<Rightarrow> exn + Complexity" where
  "Complexity_of v =
     (if v = JStr ''atomic'' then Inr ATOMIC
      else if v = JStr ''simple'' then Inr SIMPLE
      else if v = JStr ''moderate'' then Inr MODERATE
      else if v = JStr ''complex'' then Inr COMPLEX
      else Inl ValueError_complexity)"

text \<open>
  \<^verbatim>\<open>raise ValueError(f"Missing required fields in plan: {data.keys()}")\<close>: the message is
  built first, and only a dictionary has \<^verbatim>\<open>keys\<close>.
\<close>

definition missing_fields :: "json \<Rightarrow> exn" where
  "missing_fields data = (case data of JObj d \<Rightarrow> ValueError_missing_fields | _ \<Rightarrow> AttributeError)"

text \<open>
  The part of \<^verbatim>\<open>create_plan\<close> between the reply of the backend and the readiness pass:
  strip the reply, extract and parse the JSON, check the two required fields, build the
  steps and the \<^verbatim>\<open>Plan\<close> object. \<open>uid\<close> is \<^verbatim>\<open>uuid.uuid4().hex[:8]\<close> and \<open>now\<close> is
  \<^verbatim>\<open>datetime.now()\<close>. Nothing of the planner is read or written here.
\<close>

definition build_plan ::
  "(string \<Rightarrow> json option) \<Rightarrow> string \<Rightarrow> string \<Rightarrow> nat \<Rightarrow> string \<Rightarrow> exn + Plan" where
  "build_plan loads goal_text uid now content =
     (let llm_output = strip content;
          json_str = extract_json loads llm_output
      in if json_str = [] then Inl ValueError_no_json
         else
           (case loads json_str of
              None \<Rightarrow> Inl JSONDecodeError
            | Some data \<Rightarrow>
                on_value (py_in ''complexity'' data) (\<lambda>has_complexity.
                if \<not> has_complexity then Inl (missing_fields data) else
                on_value (py_in ''steps'' data) (\<lambda>has_steps.
                if \<not> has_steps then Inl (missing_fields data) else
                on_value (py_getitem data ''steps'') (\<lambda>raw.
                on_value (py_iter raw) (\<lambda>raw_steps.
                on_value (make_steps raw_steps []) (\<lambda>new_steps.
                on_value (py_getitem data ''complexity'') (\<lambda>c.
                on_value (Complexity_of c) (\<lambda>cx.
                  Inr \<lparr>plan_id = ''plan_'' @ uid, goal = goal_text, complexity = cx,
                       steps = new_steps, created_at = now,
                       plan_context =
                         [(''reasoning'',
                           (case data of
                              JObj d \<Rightarrow> dict_get d ''reasoning'' (JStr [])
                            | _ \<Rightarrow> JStr []))]\<rparr>)))))))))"

text \<open>
  \<^verbatim>\<open>create_plan\<close>. The result is the exception raised or the plan returned, with the planner
  as the call leaves it: the plan is put into \<^verbatim>\<open>self.plans\<close> after the readiness pass, if
  that returns, and before \<^verbatim>\<open>_save_plan_to_db\<close>.
\<close>

definition create_plan ::
  "('l, 'm) services \<Rightarrow> string \<Rightarrow> json option \<Rightarrow> string \<Rightarrow> nat \<Rightarrow> ('l, 'm) Planner
     \<Rightarrow> (exn + Plan) \<times> ('l, 'm) Planner" where
  "create_plan E goal_text ctx uid now P =
     (case chat_planning E goal_text ctx (tools P) (ollama P) of
        (Inl e, l') \<Rightarrow> (Inl (ChatError e), P\<lparr>ollama := l'\<rparr>)
      | (Inr content, l') \<Rightarrow>
          (let P0 = P\<lparr>ollama := l'\<rparr>
           in case build_plan (json_loads E) goal_text uid now content of
                Inl e \<Rightarrow> (Inl e, P0)
              | Inr plan \<Rightarrow>
                  (case update_ready_status (tools P0) plan of
                     (Some e, plan') \<Rightarrow> (Inl e, P0)
                   | (None, plan') \<Rightarrow>
                       (let P1 = P0\<lparr>plans := AList.update (plan_id plan') plan' (plans P0)\<rparr>
                        in case save_plan_to_db E plan' (memory P1) of
                             (Some e, m') \<Rightarrow> (Inl (StoreError e), P1\<lparr>memory := m'\<rparr>)
                           | (None, m') \<Rightarrow> (Inr plan', P1\<lparr>memory := m'\<rparr>)))))"

section \<open>Notions used to state the properties\<close>

text \<open>
  The stages of \<open>execute_step\<close> on the step at position \<open>i\<close> of a plan: the plan with that
  step \<^verbatim>\<open>EXECUTING\<close>, what the statements of the \<^verbatim>\<open>try\<close> up to the assignment of
  \<^verbatim>\<open>result\<close> do there, and the plan after the writes of the success branch and of the
  \<^verbatim>\<open>except\<close> branch.
\<close>

definition started :: "Plan \<Rightarrow> nat \<Rightarrow> Plan" where
  "started plan i = plan\<lparr>steps := (steps plan)[i := (steps plan ! i)\<lparr>status := EXECUTING\<rparr>]\<rparr>"

definition handler_outcome ::
  "('l, 'm) services \<Rightarrow> ('l, 'm) Planner \<Rightarrow> Plan \<Rightarrow> nat \<Rightarrow> (string + json) \<times> 'l \<times> 'm" where
  "handler_outcome E P plan i =
     run_handler E (started plan i) ((steps plan ! i)\<lparr>status := EXECUTING\<rparr>) (ollama P) (memory P)"

definition completed_plan :: "Plan \<Rightarrow> nat \<Rightarrow> string \<Rightarrow> json \<Rightarrow> Plan" where
  "completed_plan plan i key result =
     plan\<lparr>steps := (steps plan)[i := (steps plan ! i)\<lparr>status := COMPLETED, output_data := result\<rparr>],
          plan_context := AList.update key result (plan_context plan)\<rparr>"

definition failed_plan :: "Plan \<Rightarrow> nat \<Rightarrow> string \<Rightarrow> Plan" where
  "failed_plan plan i e =
     plan\<lparr>steps := (steps plan)[i := (steps plan ! i)\<lparr>status := FAILED, error := Some e\<rparr>]\<rparr>"

text \<open>
  A step is settled when it is neither \<^verbatim>\<open>PENDING\<close> nor \<^verbatim>\<open>READY\<close>. \<open>kept p p'\<close>: the plan
  \<open>p'\<close> has as many steps as \<open>p\<close>, and every settled step of \<open>p\<close> is unchanged in \<open>p'\<close>.
\<close>

definition settled :: "StepStatus \<Rightarrow> bool" where
  "settled st = (st \<noteq> PENDING \<and> st \<noteq> READY)"

definition kept :: "Plan \<Rightarrow> Plan \<Rightarrow> bool" where
  "kept p p' =
     (length (steps p') = length (steps p) \<and>
      (\<forall>i < length (steps p). settled (status (steps p ! i)) \<longrightarrow> steps p' ! i = steps p ! i))"

text \<open>The plan table of \<open>P'\<close> holds every plan id of \<open>P\<close>, its plan kept.\<close>

definition tracks :: "('l, 'm) Planner \<Rightarrow> ('l, 'm) Planner \<Rightarrow> bool" where
  "tracks P P' =
     (\<forall>pid p. map_of (plans P) pid = Some p \<longrightarrow> (\<exists>p'. map_of (plans P') pid = Some p' \<and> kept p p'))"

text \<open>
  One operation of the registry and the engine on the planner: \<^verbatim>\<open>register_tool\<close>, a
  readiness pass through \<^verbatim>\<open>get_next_steps\<close> (returning or raising), \<^verbatim>\<open>execute_step\<close>, and
  an \<^verbatim>\<open>execute_full_plan\<close> that returns or raises.
\<close>

inductive engine_op :: "('l, 'm) services \<Rightarrow> ('l, 'm) Planner \<Rightarrow> ('l, 'm) Planner \<Rightarrow> bool"
  for E :: "('l, 'm) services" where
  op_register: "engine_op E P (register_tool capability P)"
| op_next_steps: "get_next_steps pid P = (r, P') \<Longrightarrow> engine_op E P P'"
| op_execute_step: "execute_step E pid sid P = (result, P') \<Longrightarrow> engine_op E P P'"
| op_execute_full_plan: "execute_full_plan E pid P = Some (res, P') \<Longrightarrow> engine_op E P P'"

text \<open>
  A capability is listed among deferred requirements by a descriptor of type
  \<^verbatim>\<open>"tool"\<close> that carries its name.
\<close>

definition lists_tool :: "json \<Rightarrow> string \<Rightarrow> bool" where
  "lists_tool reqs t =
     (case reqs of
        JArr rs \<Rightarrow>
          list_ex (\<lambda>r. case r of
                         JObj d \<Rightarrow> map_of d ''type'' = Some (JStr ''tool'') \<and>
                                  map_of d ''name'' = Some (JStr t)
                       | _ \<Rightarrow> False) rs
      | _ \<Rightarrow> False)"

text \<open>
  A step whose fields have the kinds the dataclass declares: the id is a string,
  \<^verbatim>\<open>depends_on\<close> is a list of strings, \<^verbatim>\<open>deferred_requirements\<close> is a list of
  dictionaries, and the name a requirement carries can be looked up in the registry.
\<close>

definition is_str :: "json \<Rightarrow> bool" where
  "is_str v = (case v of JStr s \<Rightarrow> True | _ \<Rightarrow> False)"

definition is_requirement :: "json \<Rightarrow> bool" where
  "is_requirement r = (case r of JObj d \<Rightarrow> \<not> unhashable (dict_get d ''name'' JNull) | _ \<Rightarrow> False)"

definition declared_kinds :: "PlanStep \<Rightarrow> bool" where
  "declared_kinds s =
     (is_str (step_id s) \<and>
      (case depends_on s of JArr deps \<Rightarrow> list_all is_str deps | _ \<Rightarrow> False) \<and>
      (case deferred_requirements s of JArr rs \<Rightarrow> list_all is_requirement rs | _ \<Rightarrow> False))"

section \<open>A concrete planner for the examples\<close>

text \<open>
  A backend that answers every planning prompt with one fixed reply, here a plan of two
  steps, the second depending on the first, and a \<^verbatim>\<open>json.loads\<close> that knows this one
  reply. Every handler returns and both stores accept what they are given.
\<close>

definition demo_reply :: string where
  \<open>demo_reply = ''{"complexity": "simple", "steps": [{"id": "step_1", "tool": "memory_save_fact"}, {"id": "step_2", "depends_on": ["step_1"]}]}''\<close>

definition demo_data :: json where
  "demo_data =
     JObj [(''complexity'', JStr ''simple''),
           (''steps'',
            JArr [JObj [(''id'', JStr ''step_1''), (''tool'', JStr ''memory_save_fact'')],
                  JObj [(''id'', JStr ''step_2''), (''depends_on'', JArr [JStr ''step_1''])]])]"

text \<open>\<^verbatim>\<open>json.loads\<close> cut down to one text and its value.\<close>

definition known_reply :: "string \<Rightarrow> json \<Rightarrow> string \<Rightarrow> json option" where
  "known_reply text data = (\<lambda>s. if s = text then Some data else None)"

text \<open>The messages of the two exceptions the interpreter raises in the examples.\<close>

definition demo_str_exn :: "exn \<Rightarrow> string" where
  "demo_str_exn e =
     (if e = TypeError then ''unhashable type: '' @ [CHR 0x27] @ ''list'' @ [CHR 0x27]
      else if e = AttributeError
        then [CHR 0x27] @ ''str'' @ [CHR 0x27] @ '' object has no attribute ''
             @ [CHR 0x27] @ ''get'' @ [CHR 0x27]
      else [])"

definition reply_services :: "string \<Rightarrow> (string \<Rightarrow> json option) \<Rightarrow> (unit, unit) services" where
  "reply_services reply loads =
     \<lparr>json_loads = loads,
      chat_planning = (\<lambda>g c ts l. (Inr reply, l)),
      execute_llm = (\<lambda>s c l. (Inr (JStr ''done''), l)),
      execute_memory_search = (\<lambda>s m. (Inr (JObj [(''topics'', JArr [])]), m)),
      execute_get_facts = (\<lambda>s m. (Inr (JObj [(''topic'', JStr []), (''facts'', JArr [])]), m)),
      save_topic_fact = (\<lambda>t ft f m. (None, m)),
      save_plan_to_db = (\<lambda>p m. (None, m)),
      str_exn = demo_str_exn,
      py_repr = (\<lambda>v. ''[...]'')\<rparr>"

definition demo_services :: "(unit, unit) services" where
  "demo_services = reply_services (demo_reply @ [CHR 0x0A]) (known_reply demo_reply demo_data)"

text \<open>The same services with a memory store and a backend that raise on every call.\<close>

definition failing_services :: "(unit, unit) services" where
  "failing_services =
     demo_services\<lparr>save_topic_fact := (\<lambda>t ft f m. (Some ''database is locked'', m)),
                   execute_llm := (\<lambda>s c l. (Inl ''connection refused'', l))\<rparr>"

definition demo_init :: "(unit, unit) Planner" where
  "demo_init = init_planner () ''llama3.2:3b'' ()"

definition demo_created :: "(unit, unit) Planner" where
  "demo_created = snd (create_plan demo_services ''remember the birthday'' None ''0a1b2c3d'' 0 demo_init)"

definition demo_after_step_1 :: "(unit, unit) Planner" where
  "demo_after_step_1 =
     snd (execute_step demo_services ''plan_0a1b2c3d'' (JStr ''step_1'') demo_created)"

text \<open>A step as \<^verbatim>\<open>create_plan\<close> builds it from a raw step that gives the id, the tool, the
  dependencies and the deferred requirements, by its status, output and error.\<close>

definition step_of ::
  "string \<Rightarrow> json \<Rightarrow> json list \<Rightarrow> json list \<Rightarrow> StepStatus \<Rightarrow> json \<Rightarrow> string option \<Rightarrow> PlanStep" where
  "step_of sid t deps reqs st out err =
     \<lparr>step_id = JStr sid, description = JStr [], tool = t, tool_input = JObj [],
      expected_output = JStr [], status = st, depends_on = JArr deps, output_data = out,
      error = err, deferred_requirements = JArr reqs\<rparr>"

text \<open>The plan of the example, by the status and output of its first step, the status of
  its second step, and its context.\<close>

definition demo_plan :: "StepStatus \<Rightarrow> json \<Rightarrow> StepStatus \<Rightarrow> (string \<times> json) list \<Rightarrow> Plan" where
  "demo_plan st1 out1 st2 ctx =
     \<lparr>plan_id = ''plan_0a1b2c3d'', goal = ''remember the birthday'', complexity = SIMPLE,
      steps =
        [step_of ''step_1'' (JStr ''memory_save_fact'') [] [] st1 out1 None,
         step_of ''step_2'' JNull [JStr ''step_1''] [] st2 JNull None],
      created_at = 0, plan_context = ctx\<rparr>"

text \<open>
  A plan whose only step needs the capability \<^verbatim>\<open>image_gen\<close> and lists it among its deferred
  requirements, as the backend may reply while that capability is not registered.
\<close>

definition image_reply :: string where
  \<open>image_reply = ''{"complexity": "atomic", "steps": [{"id": "step_1", "tool": "image_gen", "deferred_requirements": [{"type": "tool", "name": "image_gen"}]}]}''\<close>

definition image_data :: json where
  "image_data =
     JObj [(''complexity'', JStr ''atomic''),
           (''steps'',
            JArr [JObj [(''id'', JStr ''step_1''), (''tool'', JStr ''image_gen''),
                        (''deferred_requirements'',
                         JArr [JObj [(''type'', JStr ''tool''), (''name'', JStr ''image_gen'')]])]])]"

definition image_services :: "(unit, unit) services" where
  "image_services = reply_services image_reply (known_reply image_reply image_data)"

definition image_created :: "(unit, unit) Planner" where
  "image_created = snd (create_plan image_services ''draw a cat'' None ''11111111'' 0 demo_init)"

definition image_plan :: "StepStatus \<Rightarrow> Plan" where
  "image_plan st =
     \<lparr>plan_id = ''plan_11111111'', goal = ''draw a cat'', complexity = ATOMIC,
      steps =
        [step_of ''step_1'' (JStr ''image_gen'') []
           [JObj [(''type'', JStr ''tool''), (''name'', JStr ''image_gen'')]] st JNull None],
      created_at = 0, plan_context = [(''reasoning'', JStr [])]\<rparr>"

definition image_gen :: ToolCapability where
  "image_gen =
     \<lparr>name = ''image_gen'', cap_description = ''Generate an image from a text prompt'',
      input_schema = JObj [(''prompt'', JStr ''string'')],
      output_schema = JObj [(''path'', JStr ''string'')],
      examples = [''Draw a cat'']\<rparr>"

text \<open>A backend that answers in prose, with nothing in it that parses.\<close>

definition prose_services :: "(unit, unit) services" where
  "prose_services = reply_services ''Sure! Here's your plan for you.'' (\<lambda>s. None)"

text \<open>A backend that answers with an empty JSON list.\<close>

definition list_services :: "(unit, unit) services" where
  "list_services = reply_services ''[]'' (known_reply ''[]'' (JArr []))"

text \<open>
  A text between an opening fence line \<^verbatim>\<open>```lang\<close> and a closing fence line.
\<close>

definition fenced :: "string \<Rightarrow> string \<Rightarrow> string" where
  "fenced lang body = ''```'' @ lang @ [CHR 0x0A] @ body @ [CHR 0x0A] @ ''```''"

text \<open>A backend that answers with the number 42 between fences.\<close>

definition number_services :: "(unit, unit) services" where
  "number_services = reply_services (fenced [] ''42'') (known_reply ''42'' (JNum 42))"

text \<open>
  A backend whose plan has two independent steps, the first with the id \<^verbatim>\<open>step_2\<close> and
  the second without an id, so that \<^verbatim>\<open>create_plan\<close> gives it the id \<^verbatim>\<open>step_2\<close> as well.
\<close>

definition twin_reply :: string where
  \<open>twin_reply = ''{"complexity": "simple", "steps": [{"id": "step_2"}, {}]}''\<close>

definition twin_data :: json where
  "twin_data =
     JObj [(''complexity'', JStr ''simple''),
           (''steps'', JArr [JObj [(''id'', JStr ''step_2'')], JObj []])]"

definition twin_services :: "(unit, unit) services" where
  "twin_services = reply_services twin_reply (known_reply twin_reply twin_data)"

definition twin_created :: "(unit, unit) Planner" where
  "twin_created = snd (create_plan twin_services ''say hello twice'' None ''44444444'' 0 demo_init)"

definition twin_step :: "StepStatus \<Rightarrow> json \<Rightarrow> PlanStep" where
  "twin_step st out = step_of ''step_2'' JNull [] [] st out None"

definition twin_plan :: "PlanStep list \<Rightarrow> (string \<times> json) list \<Rightarrow> Plan" where
  "twin_plan ss ctx =
     \<lparr>plan_id = ''plan_44444444'', goal = ''say hello twice'', complexity = SIMPLE,
      steps = ss, created_at = 0, plan_context = ctx\<rparr>"

text \<open>The planner of that example once the first of the two steps has been executed.\<close>

definition twin_stuck :: "(unit, unit) Planner" where
  "twin_stuck =
     demo_init\<lparr>plans :=
       [(''plan_44444444'',
         twin_plan [twin_step COMPLETED (JStr ''done''), twin_step READY JNull]
           [(''reasoning'', JStr []), (''output_step_2'', JStr ''done'')])]\<rparr>"

text \<open>
  A backend whose plan has three steps: \<^verbatim>\<open>A\<close>, then \<^verbatim>\<open>C\<close> that depends on \<^verbatim>\<open>A\<close>, then
  \<^verbatim>\<open>B\<close> whose second dependency entry is a list instead of a step id.
\<close>

definition nested_reply :: string where
  \<open>nested_reply = ''{"complexity": "simple", "steps": [{"id": "A"}, {"id": "C", "depends_on": ["A"]}, {"id": "B", "depends_on": ["A", ["x"]]}]}''\<close>

definition nested_data :: json where
  "nested_data =
     JObj [(''complexity'', JStr ''simple''),
           (''steps'',
            JArr [JObj [(''id'', JStr ''A'')],
                  JObj [(''id'', JStr ''C''), (''depends_on'', JArr [JStr ''A''])],
                  JObj [(''id'', JStr ''B''),
                        (''depends_on'', JArr [JStr ''A'', JArr [JStr ''x'']])]])]"

definition nested_services :: "(unit, unit) services" where
  "nested_services = reply_services nested_reply (known_reply nested_reply nested_data)"

definition nested_created :: "(unit, unit) Planner" where
  "nested_created = snd (create_plan nested_services ''look it up'' None ''66666666'' 0 demo_init)"

definition nested_executed :: "(unit, unit) Planner" where
  "nested_executed = snd (execute_step nested_services ''plan_66666666'' (JStr ''A'') nested_created)"

text \<open>The plan of that example, by its three steps and its context.\<close>

definition nested_plan :: "PlanStep \<Rightarrow> StepStatus \<Rightarrow> StepStatus \<Rightarrow> (string \<times> json) list \<Rightarrow> Plan" where
  "nested_plan a st_c st_b ctx =
     \<lparr>plan_id = ''plan_66666666'', goal = ''look it up'', complexity = SIMPLE,
      steps =
        [a,
         step_of ''C'' JNull [JStr ''A''] [] st_c JNull None,
         step_of ''B'' JNull [JStr ''A'', JArr [JStr ''x'']] [] st_b JNull None],
      created_at = 0, plan_context = ctx\<rparr>"







section \<open>Facts about the readiness pass and about one executed step\<close>

lemma on_value_Inl [simp]: "on_value (Inl e) f = Inl e"
  by (simp add: on_value_def)

lemma on_value_Inr [simp]: "on_value (Inr v) f = f v"
  by (simp add: on_value_def)

lemma on_value_eq_Inr:
  "(on_value r f = Inr y) = (\<exists>v. r = Inr v \<and> f v = Inr y)"
  by (cases r) simp_all

lemma update_step_settled: "status s \<noteq> PENDING \<Longrightarrow> update_step ts c s = Inr s"
  by (simp add: update_step_def)

lemma update_step_Inr:
  assumes "update_step ts c s = Inr s'"
  shows "s' = s\<lparr>status := status s'\<rparr>"
    and "status s' = status s \<or>
         (status s = PENDING \<and> (status s' = READY \<or> status s' = NEEDS_TOOL))"
  using assms
  by (auto simp: update_step_def on_value_eq_Inr split: if_splits)

lemma update_loop_length: "update_loop ts c ss = (r, ss') \<Longrightarrow> length ss' = length ss"
proof (induction ss arbitrary: r ss')
  case Nil
  then show ?case by simp
next
  case (Cons s ss)
  show ?case
  proof (cases "update_step ts c s")
    case (Inl e)
    with Cons.prems show ?thesis by auto
  next
    case (Inr s')
    obtain r1 ss1 where l: "update_loop ts c ss = (r1, ss1)"
      by (cases "update_loop ts c ss") auto
    from Cons.IH [OF l] Cons.prems Inr l show ?thesis by auto
  qed
qed

text \<open>Each step is either untouched or what the body of the loop made of it.\<close>

lemma update_loop_nth:
  "update_loop ts c ss = (r, ss') \<Longrightarrow> i < length ss \<Longrightarrow>
   ss' ! i = ss ! i \<or> update_step ts c (ss ! i) = Inr (ss' ! i)"
proof (induction ss arbitrary: r ss' i)
  case Nil
  then show ?case by simp
next
  case (Cons s ss)
  show ?case
  proof (cases "update_step ts c s")
    case (Inl e)
    with Cons.prems show ?thesis by auto
  next
    case (Inr s')
    obtain r1 ss1 where l: "update_loop ts c ss = (r1, ss1)"
      by (cases "update_loop ts c ss") auto
    with Cons.prems Inr have ss': "ss' = s' # ss1" by auto
    show ?thesis
    proof (cases i)
      case 0
      with ss' Inr show ?thesis by simp
    next
      case (Suc j)
      with Cons.prems have "j < length ss" by simp
      from Cons.IH [OF l this] Suc ss' show ?thesis by simp
    qed
  qed
qed

lemma update_loop_returns_nth:
  "update_loop ts c ss = (None, ss') \<Longrightarrow> i < length ss \<Longrightarrow>
   update_step ts c (ss ! i) = Inr (ss' ! i)"
proof (induction ss arbitrary: ss' i)
  case Nil
  then show ?case by simp
next
  case (Cons s ss)
  show ?case
  proof (cases "update_step ts c s")
    case (Inl e)
    with Cons.prems show ?thesis by auto
  next
    case (Inr s')
    obtain r1 ss1 where l: "update_loop ts c ss = (r1, ss1)"
      by (cases "update_loop ts c ss") auto
    with Cons.prems Inr have ss': "ss' = s' # ss1" and r1: "r1 = None" by auto
    show ?thesis
    proof (cases i)
      case 0
      with ss' Inr show ?thesis by simp
    next
      case (Suc j)
      with Cons.prems have "j < length ss" by simp
      from Cons.IH [OF l [unfolded r1] this] Suc ss' show ?thesis by simp
    qed
  qed
qed

lemma update_ready_status_cases:
  assumes "update_ready_status ts p = (r, p')"
  obtains (early) e where "completed_ids (steps p) = Inl e" "r = Some e" "p' = p"
  | (loop) c ss' where "completed_ids (steps p) = Inr c"
      "update_loop ts c (steps p) = (r, ss')" "p' = p\<lparr>steps := ss'\<rparr>"
proof (cases "completed_ids (steps p)")
  case (Inl e)
  with assms have "r = Some e" "p' = p" by (auto simp: update_ready_status_def)
  with Inl show ?thesis by (rule early)
next
  case (Inr c)
  obtain r1 ss1 where l: "update_loop ts c (steps p) = (r1, ss1)"
    by (cases "update_loop ts c (steps p)") auto
  with assms Inr have "r = r1" "p' = p\<lparr>steps := ss1\<rparr>" by (auto simp: update_ready_status_def)
  with Inr l show ?thesis by (auto intro: loop)
qed

lemma update_ready_status_length:
  assumes "update_ready_status ts p = (r, p')"
  shows "length (steps p') = length (steps p)"
  using assms
proof (cases rule: update_ready_status_cases)
  case (early e)
  then show ?thesis by simp
next
  case (loop c ss')
  then show ?thesis by (simp add: update_loop_length)
qed

lemma update_ready_status_rest:
  assumes "update_ready_status ts p = (r, p')"
  shows "plan_context p' = plan_context p" and "plan_id p' = plan_id p" and "goal p' = goal p"
  using assms by (cases rule: update_ready_status_cases; simp)+

lemma update_ready_status_nth:
  assumes "update_ready_status ts p = (r, p')" and "i < length (steps p)"
  shows "steps p' ! i = steps p ! i \<or>
         (\<exists>c. update_step ts c (steps p ! i) = Inr (steps p' ! i))"
  using assms(1)
proof (cases rule: update_ready_status_cases)
  case (early e)
  then show ?thesis by simp
next
  case (loop c ss')
  from update_loop_nth [OF loop(2) assms(2)] loop(3) show ?thesis by auto
qed

lemma update_ready_status_returns_nth:
  assumes "update_ready_status ts p = (None, p')" and "i < length (steps p)"
  shows "\<exists>c. update_step ts c (steps p ! i) = Inr (steps p' ! i)"
  using assms(1)
proof (cases rule: update_ready_status_cases)
  case (early e)
  then show ?thesis by simp
next
  case (loop c ss')
  from update_loop_returns_nth [OF loop(2) assms(2)] loop(3) show ?thesis by auto
qed

text \<open>The pass writes to \<^verbatim>\<open>PENDING\<close> steps only, and only their status.\<close>

lemma update_ready_status_settled:
  assumes "update_ready_status ts p = (r, p')" and "i < length (steps p)"
    and "status (steps p ! i) \<noteq> PENDING"
  shows "steps p' ! i = steps p ! i"
proof -
  from update_ready_status_nth [OF assms(1,2)] show ?thesis
  proof
    assume "steps p' ! i = steps p ! i"
    then show ?thesis .
  next
    assume "\<exists>c. update_step ts c (steps p ! i) = Inr (steps p' ! i)"
    then obtain c where "update_step ts c (steps p ! i) = Inr (steps p' ! i)" ..
    with assms(3) show ?thesis by (simp add: update_step_settled)
  qed
qed

lemma find_step_Some:
  "find_step sid ss = Some i \<Longrightarrow> i < length ss \<and> py_eq (step_id (ss ! i)) sid"
  by (induction ss arbitrary: i) (auto split: if_splits)

lemma find_step_None: "(find_step sid ss = None) = (\<forall>s \<in> set ss. \<not> py_eq (step_id s) sid)"
  by (induction ss) auto

lemma execute_step_skip:
  "map_of (plans P) pid = None \<Longrightarrow> execute_step E pid sid P = (JNull, P)"
  "map_of (plans P) pid = Some plan \<Longrightarrow> find_step sid (steps plan) = None \<Longrightarrow>
     execute_step E pid sid P = (JNull, P)"
  "map_of (plans P) pid = Some plan \<Longrightarrow> find_step sid (steps plan) = Some i \<Longrightarrow>
     status (steps plan ! i) \<noteq> READY \<Longrightarrow> execute_step E pid sid P = (JNull, P)"
  by (simp_all add: execute_step_def)

text \<open>The three ways a \<^verbatim>\<open>READY\<close> step leaves \<open>execute_step\<close>.\<close>

lemma execute_step_returns:
  assumes "map_of (plans P) pid = Some plan" and "find_step sid (steps plan) = Some i"
    and "status (steps plan ! i) = READY"
    and "handler_outcome E P plan i = (Inr result, l', m')"
    and "update_ready_status (tools P)
           (completed_plan plan i (''output_'' @ py_str E sid) result) = (None, plan3)"
  shows "execute_step E pid sid P =
           (result, P\<lparr>ollama := l', memory := m', plans := AList.update pid plan3 (plans P)\<rparr>)"
  using assms
  by (simp add: execute_step_def handler_outcome_def started_def completed_plan_def Let_def)

lemma execute_step_late_failure:
  assumes "map_of (plans P) pid = Some plan" and "find_step sid (steps plan) = Some i"
    and "status (steps plan ! i) = READY"
    and "handler_outcome E P plan i = (Inr result, l', m')"
    and "update_ready_status (tools P)
           (completed_plan plan i (''output_'' @ py_str E sid) result) = (Some e, plan3)"
  shows "execute_step E pid sid P =
           (JNull, P\<lparr>ollama := l', memory := m',
                     plans := AList.update pid (failed_plan plan3 i (str_exn E e)) (plans P)\<rparr>)"
  using assms
  by (simp add: execute_step_def handler_outcome_def started_def completed_plan_def
      failed_plan_def Let_def)

lemma execute_step_raises:
  assumes "map_of (plans P) pid = Some plan" and "find_step sid (steps plan) = Some i"
    and "status (steps plan ! i) = READY"
    and "handler_outcome E P plan i = (Inl e, l', m')"
  shows "execute_step E pid sid P =
           (JNull, P\<lparr>ollama := l', memory := m',
                     plans := AList.update pid (failed_plan plan i e) (plans P)\<rparr>)"
  using assms
  by (simp add: execute_step_def handler_outcome_def started_def failed_plan_def Let_def)

section \<open>Every engine operation keeps the settled steps\<close>

lemma map_of_update_same [simp]: "map_of (AList.update k v al) k = Some v"
  by (simp add: update_conv')

lemma map_of_update_other [simp]: "k' \<noteq> k \<Longrightarrow> map_of (AList.update k v al) k' = map_of al k'"
  by (simp add: update_conv')

lemma kept_refl [simp]: "kept p p"
  by (simp add: kept_def)

lemma kept_trans: "kept p p' \<Longrightarrow> kept p' p'' \<Longrightarrow> kept p p''"
  by (simp add: kept_def)

lemma kept_update_ready_status:
  assumes "update_ready_status ts p = (r, p')"
  shows "kept p p'"
  unfolding kept_def
proof (intro conjI allI impI)
  show "length (steps p') = length (steps p)"
    using assms by (rule update_ready_status_length)
next
  fix i
  assume "i < length (steps p)" and "settled (status (steps p ! i))"
  then show "steps p' ! i = steps p ! i"
    using update_ready_status_settled [OF assms] by (simp add: settled_def)
qed

text \<open>Whatever is written to a step that is not settled keeps the settled ones.\<close>

lemma kept_write:
  assumes "kept p q" and "\<not> settled (status (steps p ! i))"
  shows "kept p (q\<lparr>steps := (steps q)[i := s], plan_context := ctx\<rparr>)"
  unfolding kept_def
proof (intro conjI allI impI)
  show "length (steps (q\<lparr>steps := (steps q)[i := s], plan_context := ctx\<rparr>)) = length (steps p)"
    using assms(1) by (simp add: kept_def)
next
  fix j
  assume j: "j < length (steps p)" and s: "settled (status (steps p ! j))"
  with assms(2) have "j \<noteq> i" by auto
  moreover from assms(1) j s have "steps q ! j = steps p ! j" by (simp add: kept_def)
  ultimately show "steps (q\<lparr>steps := (steps q)[i := s], plan_context := ctx\<rparr>) ! j = steps p ! j"
    by simp
qed

lemma kept_completed_plan:
  "status (steps p ! i) = READY \<Longrightarrow> kept p (completed_plan p i key result)"
  unfolding completed_plan_def by (rule kept_write) (simp_all add: settled_def)

lemma kept_failed_plan:
  assumes "kept p q" and "status (steps p ! i) = READY"
  shows "kept p (failed_plan q i e)"
proof -
  from assms(2) have "\<not> settled (status (steps p ! i))" by (simp add: settled_def)
  with assms(1)
  have "kept p (q\<lparr>steps := (steps q)[i := (steps q ! i)\<lparr>status := FAILED, error := Some e\<rparr>],
                  plan_context := plan_context q\<rparr>)"
    by (rule kept_write)
  then show ?thesis by (simp add: failed_plan_def)
qed

lemma tracks_refl [simp]: "tracks P P"
  unfolding tracks_def by (intro allI impI exI conjI) (assumption, rule kept_refl)

lemma tracks_SomeD:
  assumes "tracks P P'" and "map_of (plans P) pid = Some p"
  shows "\<exists>p'. map_of (plans P') pid = Some p' \<and> kept p p'"
  using assms by (simp add: tracks_def)

lemma tracks_trans:
  assumes "tracks P P'" and "tracks P' P''"
  shows "tracks P P''"
  unfolding tracks_def
proof (intro allI impI)
  fix pid p
  assume "map_of (plans P) pid = Some p"
  with assms(1) obtain p' where p': "map_of (plans P') pid = Some p'" "kept p p'"
    using tracks_SomeD by blast
  from assms(2) p'(1) obtain p'' where p'': "map_of (plans P'') pid = Some p''" "kept p' p''"
    using tracks_SomeD by blast
  from p'(2) p''(2) have "kept p p''" by (rule kept_trans)
  with p''(1) show "\<exists>p''. map_of (plans P'') pid = Some p'' \<and> kept p p''" by blast
qed

lemma tracks_same_plans: "plans P' = plans P \<Longrightarrow> tracks P P'"
  by (simp add: tracks_def)

lemma tracks_update:
  assumes "map_of (plans P) pid = Some p" and "kept p p'"
    and "plans P' = AList.update pid p' (plans P)"
  shows "tracks P P'"
  unfolding tracks_def
proof (intro allI impI)
  fix k q
  assume "map_of (plans P) k = Some q"
  with assms show "\<exists>q'. map_of (plans P') k = Some q' \<and> kept q q'"
    by (cases "k = pid") simp_all
qed

lemma tracks_register_tool: "tracks P (register_tool capability P)"
  by (simp add: tracks_same_plans register_tool_def)

lemma get_next_steps_result:
  assumes "get_next_steps pid P = (r, P')" and "map_of (plans P) pid = Some p"
  shows "\<exists>e p'. update_ready_status (tools P) p = (e, p') \<and>
           plans P' = AList.update pid p' (plans P) \<and> tools P' = tools P \<and>
           r = (case e of None \<Rightarrow> Inr (filter (\<lambda>s. status s = READY) (steps p'))
                | Some x \<Rightarrow> Inl x)"
proof -
  obtain e p' where u: "update_ready_status (tools P) p = (e, p')"
    by (cases "update_ready_status (tools P) p") auto
  with assms have "plans P' = AList.update pid p' (plans P) \<and> tools P' = tools P \<and>
      r = (case e of None \<Rightarrow> Inr (filter (\<lambda>s. status s = READY) (steps p')) | Some x \<Rightarrow> Inl x)"
    by (cases e) (auto simp: get_next_steps_def)
  with u show ?thesis by blast
qed

lemma tracks_get_next_steps:
  assumes "get_next_steps pid P = (r, P')"
  shows "tracks P P'"
proof (cases "map_of (plans P) pid")
  case None
  with assms show ?thesis by (simp add: get_next_steps_def)
next
  case (Some p)
  from get_next_steps_result [OF assms Some] obtain e p' where
    u: "update_ready_status (tools P) p = (e, p')"
    and pl: "plans P' = AList.update pid p' (plans P)"
    by blast
  from u have "kept p p'" by (rule kept_update_ready_status)
  with Some show ?thesis using pl by (rule tracks_update)
qed

lemma tracks_execute_step:
  assumes ex: "execute_step E pid sid P = (r, P')"
  shows "tracks P P'"
proof (cases "map_of (plans P) pid")
  case None
  with ex show ?thesis by (simp add: execute_step_skip(1))
next
  case (Some plan)
  show ?thesis
  proof (cases "find_step sid (steps plan)")
    case None
    with Some ex show ?thesis by (simp add: execute_step_skip(2))
  next
    case i: (Some i)
    show ?thesis
    proof (cases "status (steps plan ! i) = READY")
      case False
      with Some i ex show ?thesis by (simp add: execute_step_skip(3))
    next
      case True
      obtain out l' m' where o: "handler_outcome E P plan i = (out, l', m')"
        by (cases "handler_outcome E P plan i") auto
      show ?thesis
      proof (cases out)
        case (Inl e)
        with o have o': "handler_outcome E P plan i = (Inl e, l', m')" by simp
        have "kept plan (failed_plan plan i e)"
          using kept_refl True by (rule kept_failed_plan)
        moreover from execute_step_raises [OF Some i True o'] ex
        have "plans P' = AList.update pid (failed_plan plan i e) (plans P)" by auto
        ultimately show ?thesis using Some by (intro tracks_update)
      next
        case (Inr result)
        with o have o': "handler_outcome E P plan i = (Inr result, l', m')" by simp
        let ?plan2 = "completed_plan plan i (''output_'' @ py_str E sid) result"
        obtain x plan3 where u: "update_ready_status (tools P) ?plan2 = (x, plan3)"
          by (cases "update_ready_status (tools P) ?plan2") auto
        have "kept plan ?plan2" using True by (rule kept_completed_plan)
        moreover from u have "kept ?plan2 plan3" by (rule kept_update_ready_status)
        ultimately have k3: "kept plan plan3" by (rule kept_trans)
        show ?thesis
        proof (cases x)
          case None
          with u have u': "update_ready_status (tools P) ?plan2 = (None, plan3)" by simp
          from execute_step_returns [OF Some i True o' u'] ex
          have "plans P' = AList.update pid plan3 (plans P)" by auto
          with Some k3 show ?thesis by (intro tracks_update)
        next
          case (Some e)
          with u have u': "update_ready_status (tools P) ?plan2 = (Some e, plan3)" by simp
          from k3 True have "kept plan (failed_plan plan3 i (str_exn E e))"
            by (rule kept_failed_plan)
          moreover from execute_step_late_failure [OF \<open>map_of (plans P) pid = Some plan\<close> i True o' u'] ex
          have "plans P' = AList.update pid (failed_plan plan3 i (str_exn E e)) (plans P)"
            by auto
          ultimately show ?thesis using \<open>map_of (plans P) pid = Some plan\<close>
            by (intro tracks_update)
        qed
      qed
    qed
  qed
qed

lemma tracks_run_wave: "run_wave E pid ws results P = (results', P') \<Longrightarrow> tracks P P'"
proof (induction ws arbitrary: results P)
  case Nil
  then show ?case by simp
next
  case (Cons w ws)
  obtain r P1 where e: "execute_step E pid (step_id w) P = (r, P1)"
    by (cases "execute_step E pid (step_id w) P") auto
  with Cons.prems have "run_wave E pid ws (results @ [(description w, r)]) P1 = (results', P')"
    by simp
  then have "tracks P1 P'" by (rule Cons.IH)
  moreover from e have "tracks P P1" by (rule tracks_execute_step)
  ultimately show ?case using tracks_trans by blast
qed

lemma tracks_wave_loop:
  assumes "wave_loop E pid results P = Some (res, P')"
  shows "tracks P P'"
proof -
  have "(\<lambda>x y. tracks (snd x) (snd y)) (((E, pid), results), P) (res, P')"
  proof (rule wave_loop.raw_induct [where Pa = "\<lambda>x y. tracks (snd x) (snd y)"])
    show "wave_loop E pid results P = Some (res, P')" by (rule assms)
  next
    fix loop :: "('a, 'b) services \<Rightarrow> string \<Rightarrow> (json \<times> json) list \<Rightarrow> ('a, 'b) Planner
        \<Rightarrow> ((exn + (json \<times> json) list) \<times> ('a, 'b) Planner) option"
    fix E pid results P y
    assume IH: "\<And>E pid results P y. loop E pid results P = Some y \<Longrightarrow>
        tracks (snd (((E, pid), results), P)) (snd y)"
    assume step: "(case get_next_steps pid P of
       (Inl e, P1) \<Rightarrow> Some (Inl e, P1)
     | (Inr next_steps, P1) \<Rightarrow>
         if next_steps = [] then Some (Inr results, P1)
         else case run_wave E pid next_steps results P1 of
              (results', P2) \<Rightarrow> loop E pid results' P2) = Some y"
    obtain g P1 where g: "get_next_steps pid P = (g, P1)"
      by (cases "get_next_steps pid P") auto
    then have t1: "tracks P P1" by (rule tracks_get_next_steps)
    show "tracks (snd (((E, pid), results), P)) (snd y)"
    proof (cases g)
      case (Inl e)
      with step g t1 show ?thesis by auto
    next
      case (Inr ws)
      show ?thesis
      proof (cases "ws = []")
        case True
        with step g Inr t1 show ?thesis by auto
      next
        case False
        obtain res2 P2 where w: "run_wave E pid ws results P1 = (res2, P2)"
          by (cases "run_wave E pid ws results P1") auto
        then have t2: "tracks P1 P2" by (rule tracks_run_wave)
        from step g Inr False w have "loop E pid res2 P2 = Some y" by simp
        then have "tracks P2 (snd y)" using IH by fastforce
        with t1 t2 have "tracks P (snd y)" by (blast intro: tracks_trans)
        then show ?thesis by simp
      qed
    qed
  qed
  then show ?thesis by simp
qed

lemma tracks_execute_full_plan:
  assumes "execute_full_plan E pid P = Some (res, P')"
  shows "tracks P P'"
proof (cases "map_of (plans P) pid")
  case None
  with assms show ?thesis by (simp add: execute_full_plan_def)
next
  case (Some plan)
  with assms obtain r where "wave_loop E pid [] P = Some (r, P')"
    by (auto simp: execute_full_plan_def split: option.splits sum.splits if_splits)
  then show ?thesis by (rule tracks_wave_loop)
qed

lemma tracks_engine_op: "engine_op E P P' \<Longrightarrow> tracks P P'"
proof (induction rule: engine_op.induct)
  case (op_register P capability)
  show ?case by (rule tracks_register_tool)
next
  case (op_next_steps pid P r P')
  then show ?case by (rule tracks_get_next_steps)
next
  case (op_execute_step pid sid P result P')
  then show ?case by (rule tracks_execute_step)
next
  case (op_execute_full_plan pid P res P')
  then show ?case by (rule tracks_execute_full_plan)
qed

lemma tracks_engine_ops: "(engine_op E)\<^sup>*\<^sup>* P P' \<Longrightarrow> tracks P P'"
proof (induction rule: rtranclp_induct)
  case base
  show ?case by simp
next
  case (step P' P'')
  from step(2) have "tracks P' P''" by (rule tracks_engine_op)
  with step(3) show ?case by (rule tracks_trans)
qed

text \<open>A settled step is the same after any sequence of engine operations.\<close>

lemma engine_ops_keep:
  assumes "(engine_op E)\<^sup>*\<^sup>* P P'" and "map_of (plans P) pid = Some p"
    and "i < length (steps p)" and "settled (status (steps p ! i))"
  shows "\<exists>p'. map_of (plans P') pid = Some p' \<and> length (steps p') = length (steps p) \<and>
           steps p' ! i = steps p ! i"
proof -
  from assms(1) have "tracks P P'" by (rule tracks_engine_ops)
  with assms(2) obtain p' where p': "map_of (plans P') pid = Some p'" "kept p p'"
    using tracks_SomeD by blast
  from p'(2) assms(3,4) have "length (steps p') = length (steps p) \<and> steps p' ! i = steps p ! i"
    by (simp add: kept_def)
  with p'(1) show ?thesis by blast
qed

section \<open>Steps that need a tool, and steps of the declared kinds\<close>

lemma py_eq_JStr_right [simp]: "py_eq v (JStr s) = (v = JStr s)"
  by (cases v) auto

lemma unmet_loop_listed:
  assumes "unmet_loop ts rs = Inr u" and "map_of ts t = None"
    and "list_ex (\<lambda>r. case r of
                        JObj d \<Rightarrow> map_of d ''type'' = Some (JStr ''tool'') \<and>
                                 map_of d ''name'' = Some (JStr t)
                      | _ \<Rightarrow> False) rs"
  shows "u \<noteq> []"
  using assms(1,3)
proof (induction rs arbitrary: u)
  case Nil
  then show ?case by simp
next
  case (Cons r rs)
  from Cons.prems(1) obtain d where r: "r = JObj d" by (cases r) simp_all
  show ?case
  proof (cases "map_of d ''type'' = Some (JStr ''tool'') \<and> map_of d ''name'' = Some (JStr t)")
    case True
    with Cons.prems(1) r assms(2) show ?thesis
      by (auto simp: dict_get_def not_in_tools_def on_value_eq_Inr)
  next
    case False
    with Cons.prems(2) r have ex: "list_ex (\<lambda>r. case r of
                        JObj d \<Rightarrow> map_of d ''type'' = Some (JStr ''tool'') \<and>
                                 map_of d ''name'' = Some (JStr t)
                      | _ \<Rightarrow> False) rs"
      by simp
    show ?thesis
    proof (cases "dict_get d ''type'' JNull = JStr ''tool''")
      case True
      with Cons.prems(1) r obtain missing others where
        o: "unmet_loop ts rs = Inr others" and u: "u = (if missing then r # others else others)"
        by (auto simp: on_value_eq_Inr)
      from Cons.IH [OF o ex] u show ?thesis by simp
    next
      case False
      with Cons.prems(1) r have "unmet_loop ts rs = Inr u" by simp
      from Cons.IH [OF this ex] show ?thesis .
    qed
  qed
qed

lemma update_step_flags:
  assumes "update_step ts c s = Inr s'" and "status s = PENDING"
    and "map_of ts t = None" and "lists_tool (deferred_requirements s) t"
  shows "status s' = NEEDS_TOOL"
proof -
  from assms(4) obtain rs where rs: "deferred_requirements s = JArr rs"
    and ex: "list_ex (\<lambda>r. case r of
                        JObj d \<Rightarrow> map_of d ''type'' = Some (JStr ''tool'') \<and>
                                 map_of d ''name'' = Some (JStr t)
                      | _ \<Rightarrow> False) rs"
    by (cases "deferred_requirements s") (simp_all add: lists_tool_def)
  from ex have ne: "rs \<noteq> []" by auto
  from assms(1,2) rs ne obtain u where u: "unmet_loop ts rs = Inr u"
    by (auto simp: update_step_def unmet_def on_value_eq_Inr)
  from unmet_loop_listed [OF u assms(3) ex] have "u \<noteq> []" .
  with assms(1,2) rs ne u show ?thesis
    by (auto simp: update_step_def unmet_def)
qed

lemma all_in_loop_strs: "list_all is_str deps \<Longrightarrow> \<exists>b. all_in_loop c deps = Inr b"
proof (induction deps)
  case Nil
  show ?case by (intro exI) simp
next
  case (Cons d deps)
  from Cons.prems obtain s where d: "d = JStr s" by (cases d) (simp_all add: is_str_def)
  from Cons obtain b where b: "all_in_loop c deps = Inr b" by auto
  show ?case
  proof (cases "list_ex (py_eq d) c")
    case True
    with d b show ?thesis by (simp add: py_in_set_def)
  next
    case False
    with d have "all_in_loop c (d # deps) = Inr False" by (simp add: py_in_set_def)
    then show ?thesis by (rule exI)
  qed
qed

lemma unmet_loop_requirements:
  "list_all is_requirement rs \<Longrightarrow> \<exists>u. unmet_loop ts rs = Inr u"
proof (induction rs)
  case Nil
  show ?case by simp
next
  case (Cons r rs)
  from Cons.prems obtain d where r: "r = JObj d"
    and h: "\<not> unhashable (dict_get d ''name'' JNull)"
    by (cases r) (simp_all add: is_requirement_def)
  from Cons obtain u where u: "unmet_loop ts rs = Inr u" by auto
  with r h show ?case by (simp add: not_in_tools_def)
qed

lemma update_step_declared_kinds:
  assumes "declared_kinds s"
  shows "\<exists>s'. update_step ts c s = Inr s'"
proof -
  from assms obtain deps where deps: "depends_on s = JArr deps" "list_all is_str deps"
    by (cases "depends_on s") (simp_all add: declared_kinds_def)
  from assms obtain rs where rs: "deferred_requirements s = JArr rs" "list_all is_requirement rs"
    by (cases "deferred_requirements s") (simp_all add: declared_kinds_def)
  from deps(2) obtain b where b: "all_in_loop c deps = Inr b"
    using all_in_loop_strs by blast
  from rs(2) obtain u where u: "unmet_loop ts rs = Inr u"
    using unmet_loop_requirements by blast
  from deps(1) rs(1) b u show ?thesis
    by (simp add: update_step_def unmet_def all_in_def)
qed

lemma completed_ids_declared_kinds:
  "list_all declared_kinds ss \<Longrightarrow> \<exists>c. completed_ids ss = Inr c"
proof (induction ss)
  case Nil
  show ?case by simp
next
  case (Cons s ss)
  from Cons.prems obtain x where "step_id s = JStr x"
    by (cases "step_id s") (simp_all add: declared_kinds_def is_str_def)
  with Cons show ?case by auto
qed

lemma update_loop_declared_kinds:
  "list_all declared_kinds ss \<Longrightarrow> fst (update_loop ts c ss) = None"
proof (induction ss)
  case Nil
  show ?case by simp
next
  case (Cons s ss)
  from Cons.prems have "declared_kinds s" by simp
  then obtain s' where "update_step ts c s = Inr s'"
    using update_step_declared_kinds by blast
  with Cons show ?case by (simp add: split_beta)
qed

text \<open>On a plan whose steps have the declared kinds the pass never raises.\<close>

lemma update_ready_status_declared_kinds:
  assumes "list_all declared_kinds (steps p)"
  shows "fst (update_ready_status ts p) = None"
proof -
  from assms obtain c where c: "completed_ids (steps p) = Inr c"
    using completed_ids_declared_kinds by blast
  from assms have "fst (update_loop ts c (steps p)) = None"
    by (rule update_loop_declared_kinds)
  with c show ?thesis by (simp add: update_ready_status_def split_beta)
qed

section \<open>The example planners, evaluated\<close>

lemma char_of_50 [simp]: "char_of (50::nat) = CHR ''2''"
  by (simp add: char_of_def bit_iff_odd)

lemmas eval_pass =
  update_ready_status_def update_step_def unmet_def all_in_def py_in_set_def not_in_tools_def
  dict_get_def

lemmas eval_create =
  create_plan_def reply_services_def known_reply_def demo_init_def init_planner_def
  register_builtin_tools_def register_tool_def build_plan_def Let_def extract_json_def
  strip_def is_space_def Complexity_of_def step_of_def eval_pass

lemmas eval_execute =
  execute_step_def run_handler_def get_execution_context_def dispatch_def
  execute_save_fact_def py_str_def reply_services_def Let_def step_of_def eval_pass

lemma demo_created_plans:
  "plans demo_created =
     [(''plan_0a1b2c3d'', demo_plan READY JNull PENDING [(''reasoning'', JStr [])])]"
  by (simp add: demo_created_def demo_plan_def demo_services_def demo_reply_def demo_data_def
      eval_create)

lemma demo_created_rest:
  "tools demo_created = tools demo_init" "memory demo_created = ()" "ollama demo_created = ()"
  by (simp_all add: demo_created_def demo_services_def demo_reply_def demo_data_def eval_create)

lemma demo_after_step_1_plans:
  "plans demo_after_step_1 =
     [(''plan_0a1b2c3d'',
       demo_plan COMPLETED (JObj [(''success'', JBool True)]) READY
         [(''reasoning'', JStr []), (''output_step_1'', JObj [(''success'', JBool True)])])]"
  by (simp add: demo_after_step_1_def demo_created_plans demo_created_rest demo_plan_def
      demo_services_def eval_execute)

section \<open>Claims about refused steps\<close>

text \<open>
  Claim C10. \<^verbatim>\<open>execute_step\<close> called with an unknown plan id, with a step id that no step
  of the plan has, or for a step that is not \<^verbatim>\<open>READY\<close>, returns \<^verbatim>\<open>None\<close> and leaves the
  whole planner as it was: every plan with its steps and its context, the registry and
  the services.
\<close>

theorem execute_step_refuses_without_change:
  assumes "map_of (plans P) pid = None \<or>
           (\<exists>plan. map_of (plans P) pid = Some plan \<and>
              ((\<forall>s \<in> set (steps plan). \<not> py_eq (step_id s) sid) \<or>
               (\<exists>i. find_step sid (steps plan) = Some i \<and> status (steps plan ! i) \<noteq> READY)))"
  shows "execute_step E pid sid P = (JNull, P)"
  using assms
proof (elim disjE exE conjE)
  assume "map_of (plans P) pid = None"
  then show ?thesis by (rule execute_step_skip(1))
next
  fix plan
  assume "map_of (plans P) pid = Some plan" and "\<forall>s \<in> set (steps plan). \<not> py_eq (step_id s) sid"
  then show ?thesis by (simp add: execute_step_skip(2) find_step_None)
next
  fix plan i
  assume "map_of (plans P) pid = Some plan" and "find_step sid (steps plan) = Some i"
    and "status (steps plan ! i) \<noteq> READY"
  then show ?thesis by (rule execute_step_skip(3))
qed

theorem execute_step_refuses_without_change_witness:
  "map_of (plans demo_created) ''plan_ffffffff'' = None \<and>
   execute_step demo_services ''plan_ffffffff'' (JStr ''step_1'') demo_created
     = (JNull, demo_created) \<and>
   map_of (plans demo_created) ''plan_0a1b2c3d'' =
     Some (demo_plan READY JNull PENDING [(''reasoning'', JStr [])]) \<and>
   list_all (\<lambda>s. \<not> py_eq (step_id s) (JStr ''step_9''))
     (steps (demo_plan READY JNull PENDING [(''reasoning'', JStr [])])) \<and>
   execute_step demo_services ''plan_0a1b2c3d'' (JStr ''step_9'') demo_created
     = (JNull, demo_created) \<and>
   find_step (JStr ''step_2'') (steps (demo_plan READY JNull PENDING [(''reasoning'', JStr [])]))
     = Some 1 \<and>
   status (steps (demo_plan READY JNull PENDING [(''reasoning'', JStr [])]) ! 1) \<noteq> READY \<and>
   execute_step demo_services ''plan_0a1b2c3d'' (JStr ''step_2'') demo_created
     = (JNull, demo_created)"
proof -
  let ?p = "demo_plan READY JNull PENDING [(''reasoning'', JStr [])]"
  have a: "map_of (plans demo_created) ''plan_ffffffff'' = None"
    by (simp add: demo_created_plans)
  have b: "map_of (plans demo_created) ''plan_0a1b2c3d'' = Some ?p"
    by (simp add: demo_created_plans)
  have c: "list_all (\<lambda>s. \<not> py_eq (step_id s) (JStr ''step_9'')) (steps ?p)"
    by (simp add: demo_plan_def step_of_def)
  then have c': "\<forall>s \<in> set (steps ?p). \<not> py_eq (step_id s) (JStr ''step_9'')"
    by (simp add: list_all_iff)
  have d: "find_step (JStr ''step_2'') (steps ?p) = Some 1"
    by (simp add: demo_plan_def step_of_def)
  have e: "status (steps ?p ! 1) \<noteq> READY" by (simp add: demo_plan_def step_of_def)
  have "execute_step demo_services ''plan_ffffffff'' (JStr ''step_1'') demo_created
      = (JNull, demo_created)"
    using a by (intro execute_step_refuses_without_change disjI1)
  moreover
  have "execute_step demo_services ''plan_0a1b2c3d'' (JStr ''step_9'') demo_created
      = (JNull, demo_created)"
    using b c' by (intro execute_step_refuses_without_change disjI2) blast
  moreover
  have "execute_step demo_services ''plan_0a1b2c3d'' (JStr ''step_2'') demo_created
      = (JNull, demo_created)"
    using b d e by (intro execute_step_refuses_without_change disjI2) blast
  ultimately show ?thesis using a b c d e by (intro conjI)
qed

section \<open>Claims about steps that need a tool\<close>

lemma image_created_plans:
  "plans image_created = [(''plan_11111111'', image_plan NEEDS_TOOL)]"
  by (simp add: image_created_def image_plan_def image_services_def image_reply_def image_data_def
      eval_create)

lemma image_created_rest:
  "tools image_created = tools demo_init" "memory image_created = ()" "ollama image_created = ()"
  by (simp_all add: image_created_def image_services_def image_reply_def image_data_def
      eval_create)

text \<open>
  Claim C1, evaluated. The backend plans one step that needs \<^verbatim>\<open>image_gen\<close> while that
  capability is not registered, so \<^verbatim>\<open>create_plan\<close> leaves the step \<^verbatim>\<open>NEEDS_TOOL\<close>. After
  \<^verbatim>\<open>register_tool\<close> for \<^verbatim>\<open>image_gen\<close> the next readiness pass changes nothing: the step
  has no dependency, yet it stays \<^verbatim>\<open>NEEDS_TOOL\<close> and the wave is empty.
\<close>

theorem needs_tool_survives_registration:
  "map_of (plans image_created) ''plan_11111111'' = Some (image_plan NEEDS_TOOL) \<and>
   map_of (tools image_created) ''image_gen'' = None \<and>
   map_of (tools (register_tool image_gen image_created)) ''image_gen'' = Some image_gen \<and>
   depends_on (steps (image_plan NEEDS_TOOL) ! 0) = JArr [] \<and>
   get_next_steps ''plan_11111111'' (register_tool image_gen image_created) =
     (Inr [], register_tool image_gen image_created)"
  apply (intro conjI)
      apply (simp add: image_created_plans)
     apply (simp add: image_created_rest demo_init_def init_planner_def register_builtin_tools_def
      register_tool_def)
    apply (simp add: register_tool_def image_gen_def)
   apply (simp add: image_plan_def step_of_def)
  apply (simp add: get_next_steps_def register_tool_def image_created_plans image_plan_def
      step_of_def eval_pass)
  done

text \<open>
  Claim C2. On a plan whose steps have the declared kinds the readiness pass returns, and
  whenever it returns, a \<^verbatim>\<open>PENDING\<close> step whose tool is not registered and is listed among
  the step's deferred requirements has been set to \<^verbatim>\<open>NEEDS_TOOL\<close> by it. A step that is
  \<^verbatim>\<open>NEEDS_TOOL\<close> is left exactly as it is by every sequence of registry and engine
  operations, so it is never executed, and \<^verbatim>\<open>get_next_steps\<close> returns the steps that are
  \<^verbatim>\<open>READY\<close> after its pass and no others.
\<close>

theorem needs_tool_step_is_flagged_and_excluded:
  "(list_all declared_kinds (steps p) \<longrightarrow> fst (update_ready_status ts p) = None) \<and>
   (fst (update_ready_status ts p) = None \<and>
      i < length (steps p) \<and> status (steps p ! i) = PENDING \<and> tool (steps p ! i) = JStr t \<and>
      map_of ts t = None \<and> lists_tool (deferred_requirements (steps p ! i)) t \<longrightarrow>
      status (steps (snd (update_ready_status ts p)) ! i) = NEEDS_TOOL) \<and>
   ((engine_op E)\<^sup>*\<^sup>* P P' \<and> map_of (plans P) pid = Some p \<and> i < length (steps p) \<and>
      status (steps p ! i) = NEEDS_TOOL \<longrightarrow>
      (\<exists>p'. map_of (plans P') pid = Some p' \<and> length (steps p') = length (steps p) \<and>
            steps p' ! i = steps p ! i)) \<and>
   (get_next_steps pid P = (Inr next_steps, P') \<and> map_of (plans P) pid = Some p \<longrightarrow>
      (\<exists>p'. map_of (plans P') pid = Some p' \<and>
            next_steps = filter (\<lambda>s. status s = READY) (steps p')) \<and>
      (\<forall>s \<in> set next_steps. status s \<noteq> NEEDS_TOOL))"
proof (intro conjI impI; (elim conjE)?)
  assume "list_all declared_kinds (steps p)"
  then show "fst (update_ready_status ts p) = None"
    by (rule update_ready_status_declared_kinds)
next
  assume r: "fst (update_ready_status ts p) = None"
    and i: "i < length (steps p)" and pe: "status (steps p ! i) = PENDING"
    and "tool (steps p ! i) = JStr t" and nt: "map_of ts t = None"
    and lt: "lists_tool (deferred_requirements (steps p ! i)) t"
  from r have "update_ready_status ts p = (None, snd (update_ready_status ts p))"
    by (cases "update_ready_status ts p") simp
  from update_ready_status_returns_nth [OF this i] obtain c where
    "update_step ts c (steps p ! i) = Inr (steps (snd (update_ready_status ts p)) ! i)" ..
  then show "status (steps (snd (update_ready_status ts p)) ! i) = NEEDS_TOOL"
    using pe nt lt by (rule update_step_flags)
next
  assume ops: "(engine_op E)\<^sup>*\<^sup>* P P'" and m: "map_of (plans P) pid = Some p"
    and i: "i < length (steps p)" and n: "status (steps p ! i) = NEEDS_TOOL"
  from n have "settled (status (steps p ! i))" by (simp add: settled_def)
  with ops m i show "\<exists>p'. map_of (plans P') pid = Some p' \<and>
      length (steps p') = length (steps p) \<and> steps p' ! i = steps p ! i"
    by (rule engine_ops_keep)
next
  assume g: "get_next_steps pid P = (Inr next_steps, P')" and m: "map_of (plans P) pid = Some p"
  from get_next_steps_result [OF g m] obtain e p' where
    u: "update_ready_status (tools P) p = (e, p')"
    and pl: "plans P' = AList.update pid p' (plans P)"
    and r: "Inr next_steps = (case e of None \<Rightarrow> Inr (filter (\<lambda>s. status s = READY) (steps p'))
                | Some x \<Rightarrow> Inl x)"
    by blast
  from r have ns: "next_steps = filter (\<lambda>s. status s = READY) (steps p')"
    by (cases e) simp_all
  from pl have "map_of (plans P') pid = Some p'" by simp
  with ns show "\<exists>p'. map_of (plans P') pid = Some p' \<and>
      next_steps = filter (\<lambda>s. status s = READY) (steps p')"
    by blast
  from ns show "\<forall>s \<in> set next_steps. status s \<noteq> NEEDS_TOOL" by auto
qed

theorem needs_tool_step_is_flagged_and_excluded_witness:
  "list_all declared_kinds (steps (image_plan PENDING)) \<and>
   fst (update_ready_status (tools demo_init) (image_plan PENDING)) = None \<and>
   (0::nat) < length (steps (image_plan PENDING)) \<and>
   status (steps (image_plan PENDING) ! 0) = PENDING \<and>
   tool (steps (image_plan PENDING) ! 0) = JStr ''image_gen'' \<and>
   map_of (tools demo_init) ''image_gen'' = None \<and>
   lists_tool (deferred_requirements (steps (image_plan PENDING) ! 0)) ''image_gen'' \<and>
   status (steps (snd (update_ready_status (tools demo_init) (image_plan PENDING))) ! 0)
     = NEEDS_TOOL \<and>
   (engine_op image_services)\<^sup>*\<^sup>* image_created
     (snd (execute_step image_services ''plan_11111111'' (JStr ''step_1'')
        (register_tool image_gen image_created))) \<and>
   map_of (plans image_created) ''plan_11111111'' = Some (image_plan NEEDS_TOOL) \<and>
   (0::nat) < length (steps (image_plan NEEDS_TOOL)) \<and>
   status (steps (image_plan NEEDS_TOOL) ! 0) = NEEDS_TOOL \<and>
   (\<exists>p'. map_of (plans (snd (execute_step image_services ''plan_11111111'' (JStr ''step_1'')
                      (register_tool image_gen image_created)))) ''plan_11111111'' = Some p' \<and>
         steps p' ! 0 = steps (image_plan NEEDS_TOOL) ! 0) \<and>
   map_of (plans demo_created) ''plan_0a1b2c3d'' =
     Some (demo_plan READY JNull PENDING [(''reasoning'', JStr [])]) \<and>
   get_next_steps ''plan_0a1b2c3d'' demo_created =
     (Inr [step_of ''step_1'' (JStr ''memory_save_fact'') [] [] READY JNull None], demo_created) \<and>
   list_all (\<lambda>s. status s \<noteq> NEEDS_TOOL)
     [step_of ''step_1'' (JStr ''memory_save_fact'') [] [] READY JNull None]"
proof -
  let ?P1 = "register_tool image_gen image_created"
  let ?P2 = "snd (execute_step image_services ''plan_11111111'' (JStr ''step_1'') ?P1)"
  have a0: "list_all declared_kinds (steps (image_plan PENDING))"
    by (simp add: image_plan_def step_of_def declared_kinds_def is_str_def is_requirement_def
        dict_get_def)
  have a1: "(0::nat) < length (steps (image_plan PENDING))" by (simp add: image_plan_def)
  have a2: "status (steps (image_plan PENDING) ! 0) = PENDING"
    by (simp add: image_plan_def step_of_def)
  have a3: "tool (steps (image_plan PENDING) ! 0) = JStr ''image_gen''"
    by (simp add: image_plan_def step_of_def)
  have a4: "map_of (tools demo_init) ''image_gen'' = None"
    by (simp add: demo_init_def init_planner_def register_builtin_tools_def register_tool_def)
  have a5: "lists_tool (deferred_requirements (steps (image_plan PENDING) ! 0)) ''image_gen''"
    by (simp add: image_plan_def step_of_def lists_tool_def)
  have "engine_op image_services image_created ?P1" by (rule op_register)
  moreover have "execute_step image_services ''plan_11111111'' (JStr ''step_1'') ?P1 =
      (fst (execute_step image_services ''plan_11111111'' (JStr ''step_1'') ?P1), ?P2)"
    by simp
  then have "engine_op image_services ?P1 ?P2" by (rule op_execute_step)
  ultimately have b1: "(engine_op image_services)\<^sup>*\<^sup>* image_created ?P2"
    by (meson rtranclp.rtrancl_into_rtrancl r_into_rtranclp)
  have b2: "map_of (plans image_created) ''plan_11111111'' = Some (image_plan NEEDS_TOOL)"
    by (simp add: image_created_plans)
  have b3: "(0::nat) < length (steps (image_plan NEEDS_TOOL))" by (simp add: image_plan_def)
  have b4: "status (steps (image_plan NEEDS_TOOL) ! 0) = NEEDS_TOOL"
    by (simp add: image_plan_def step_of_def)
  let ?w = "[step_of ''step_1'' (JStr ''memory_save_fact'') [] [] READY JNull None]"
  have c0: "map_of (plans demo_created) ''plan_0a1b2c3d'' =
     Some (demo_plan READY JNull PENDING [(''reasoning'', JStr [])])"
    by (simp add: demo_created_plans)
  have "get_next_steps ''plan_0a1b2c3d'' demo_created =
      (Inr ?w, demo_created\<lparr>plans := plans demo_created\<rparr>)"
    by (simp add: get_next_steps_def demo_created_plans demo_plan_def step_of_def eval_pass)
  then have c1: "get_next_steps ''plan_0a1b2c3d'' demo_created = (Inr ?w, demo_created)"
    by simp
  note thm1 = needs_tool_step_is_flagged_and_excluded
    [where p = "image_plan PENDING" and i = 0 and t = "''image_gen''"
      and ts = "tools demo_init" and E = image_services and P = image_created and P' = ?P2
      and pid = "''plan_11111111''" and next_steps = "[]"]
  note thm2 = needs_tool_step_is_flagged_and_excluded
    [where p = "image_plan NEEDS_TOOL" and i = 0 and t = "''image_gen''"
      and ts = "tools demo_init" and E = image_services and P = image_created and P' = ?P2
      and pid = "''plan_11111111''" and next_steps = "[]"]
  note thm3 = needs_tool_step_is_flagged_and_excluded
    [where p = "demo_plan READY JNull PENDING [(''reasoning'', JStr [])]" and i = 0
      and t = "''image_gen''" and ts = "tools demo_init" and E = demo_services
      and P = demo_created and P' = demo_created and pid = "''plan_0a1b2c3d''"
      and next_steps = ?w]
  from thm1 a0
  have r0: "fst (update_ready_status (tools demo_init) (image_plan PENDING)) = None"
    by blast
  from thm1 r0 a1 a2 a3 a4 a5
  have r1: "status (steps (snd (update_ready_status (tools demo_init) (image_plan PENDING))) ! 0)
      = NEEDS_TOOL"
    by blast
  from thm2 b1 b2 b3 b4
  have r2: "\<exists>p'. map_of (plans ?P2) ''plan_11111111'' = Some p' \<and>
         steps p' ! 0 = steps (image_plan NEEDS_TOOL) ! 0"
    by blast
  from thm3 c1 c0
  have "\<forall>s \<in> set ?w. status s \<noteq> NEEDS_TOOL"
    by blast
  then have r3: "list_all (\<lambda>s. status s \<noteq> NEEDS_TOOL) ?w"
    by (simp only: list_all_iff)
  from a0 r0 a1 a2 a3 a4 a5 r1 b1 b2 b3 b4 r2 c0 c1 r3 show ?thesis by (intro conjI)
qed

section \<open>Claims about handlers that raise\<close>

text \<open>
  Claim C6. When the handler of a \<^verbatim>\<open>READY\<close> step raises, \<^verbatim>\<open>execute_step\<close> returns \<^verbatim>\<open>None\<close>;
  the step becomes \<^verbatim>\<open>FAILED\<close> with the text of the exception as its error, every other
  step of the plan, the plan context, the other plans and the registry are as before, and
  the loop of \<^verbatim>\<open>execute_full_plan\<close> records \<^verbatim>\<open>None\<close> for the step, goes on with the rest
  of the wave from there and then with the next wave.
\<close>

theorem handler_failure_is_contained:
  assumes "map_of (plans P) pid = Some plan" and "find_step sid (steps plan) = Some i"
    and "status (steps plan ! i) = READY"
    and "handler_outcome E P plan i = (Inl e, l', m')"
  shows "\<exists>P' plan'.
           execute_step E pid sid P = (JNull, P') \<and>
           map_of (plans P') pid = Some plan' \<and>
           length (steps plan') = length (steps plan) \<and>
           steps plan' ! i = (steps plan ! i)\<lparr>status := FAILED, error := Some e\<rparr> \<and>
           (\<forall>j. j \<noteq> i \<longrightarrow> steps plan' ! j = steps plan ! j) \<and>
           plan_context plan' = plan_context plan \<and>
           (\<forall>other. other \<noteq> pid \<longrightarrow> map_of (plans P') other = map_of (plans P) other) \<and>
           tools P' = tools P \<and>
           (\<forall>step rest results. step_id step = sid \<longrightarrow>
              run_wave E pid (step # rest) results P =
              run_wave E pid rest (results @ [(description step, JNull)]) P') \<and>
           (\<forall>P0 step rest results.
              get_next_steps pid P0 = (Inr (step # rest), P) \<and> step_id step = sid \<longrightarrow>
              wave_loop E pid results P0 =
                (case run_wave E pid rest (results @ [(description step, JNull)]) P' of
                   (results', P2) \<Rightarrow> wave_loop E pid results' P2))"
proof -
  let ?P' = "P\<lparr>ollama := l', memory := m',
               plans := AList.update pid (failed_plan plan i e) (plans P)\<rparr>"
  from assms(2) have i: "i < length (steps plan)" by (simp add: find_step_Some)
  from assms have ex: "execute_step E pid sid P = (JNull, ?P')"
    by (rule execute_step_raises)
  have "map_of (plans ?P') pid = Some (failed_plan plan i e)" by simp
  moreover have "length (steps (failed_plan plan i e)) = length (steps plan)"
    by (simp add: failed_plan_def)
  moreover have "steps (failed_plan plan i e) ! i = (steps plan ! i)\<lparr>status := FAILED, error := Some e\<rparr>"
    using i by (simp add: failed_plan_def)
  moreover have "\<forall>j. j \<noteq> i \<longrightarrow> steps (failed_plan plan i e) ! j = steps plan ! j"
    by (simp add: failed_plan_def)
  moreover have "plan_context (failed_plan plan i e) = plan_context plan"
    by (simp add: failed_plan_def)
  moreover have "\<forall>other. other \<noteq> pid \<longrightarrow> map_of (plans ?P') other = map_of (plans P) other"
    by simp
  moreover have "tools ?P' = tools P" by simp
  moreover have "\<forall>step rest results. step_id step = sid \<longrightarrow>
      run_wave E pid (step # rest) results P =
      run_wave E pid rest (results @ [(description step, JNull)]) ?P'"
    using ex by simp
  moreover have "\<forall>P0 step rest results.
      get_next_steps pid P0 = (Inr (step # rest), P) \<and> step_id step = sid \<longrightarrow>
      wave_loop E pid results P0 =
        (case run_wave E pid rest (results @ [(description step, JNull)]) ?P' of
           (results', P2) \<Rightarrow> wave_loop E pid results' P2)"
  proof (intro allI impI, elim conjE)
    fix P0 step rest results
    assume g: "get_next_steps pid P0 = (Inr (step # rest), P)" and s: "step_id step = sid"
    show "wave_loop E pid results P0 =
        (case run_wave E pid rest (results @ [(description step, JNull)]) ?P' of
           (results', P2) \<Rightarrow> wave_loop E pid results' P2)"
      by (subst wave_loop.simps) (simp add: g s ex)
  qed
  ultimately show ?thesis using ex by blast
qed

theorem handler_failure_is_contained_witness:
  "map_of (plans demo_after_step_1) ''plan_0a1b2c3d'' =
     Some (demo_plan COMPLETED (JObj [(''success'', JBool True)]) READY
            [(''reasoning'', JStr []), (''output_step_1'', JObj [(''success'', JBool True)])]) \<and>
   find_step (JStr ''step_2'')
     (steps (demo_plan COMPLETED (JObj [(''success'', JBool True)]) READY
            [(''reasoning'', JStr []), (''output_step_1'', JObj [(''success'', JBool True)])]))
     = Some 1 \<and>
   status (steps (demo_plan COMPLETED (JObj [(''success'', JBool True)]) READY
            [(''reasoning'', JStr []), (''output_step_1'', JObj [(''success'', JBool True)])]) ! 1)
     = READY \<and>
   handler_outcome failing_services demo_after_step_1
     (demo_plan COMPLETED (JObj [(''success'', JBool True)]) READY
        [(''reasoning'', JStr []), (''output_step_1'', JObj [(''success'', JBool True)])]) 1
     = (Inl ''connection refused'', (), ()) \<and>
   (\<exists>P' plan'.
      execute_step failing_services ''plan_0a1b2c3d'' (JStr ''step_2'') demo_after_step_1
        = (JNull, P') \<and>
      map_of (plans P') ''plan_0a1b2c3d'' = Some plan' \<and>
      status (steps plan' ! 1) = FAILED \<and>
      error (steps plan' ! 1) = Some ''connection refused'' \<and>
      status (steps plan' ! 0) = COMPLETED)"
proof -
  let ?p = "demo_plan COMPLETED (JObj [(''success'', JBool True)]) READY
            [(''reasoning'', JStr []), (''output_step_1'', JObj [(''success'', JBool True)])]"
  have a: "map_of (plans demo_after_step_1) ''plan_0a1b2c3d'' = Some ?p"
    by (simp add: demo_after_step_1_plans)
  have b: "find_step (JStr ''step_2'') (steps ?p) = Some 1"
    by (simp add: demo_plan_def step_of_def)
  have c: "status (steps ?p ! 1) = READY" by (simp add: demo_plan_def step_of_def)
  have d: "handler_outcome failing_services demo_after_step_1 ?p 1
      = (Inl ''connection refused'', (), ())"
    by (simp add: handler_outcome_def started_def run_handler_def get_execution_context_def
        dispatch_def demo_plan_def step_of_def failing_services_def)
  have e: "status (steps ?p ! 0) = COMPLETED" by (simp add: demo_plan_def step_of_def)
  from handler_failure_is_contained [OF a b c d] obtain P' plan' where
    r: "execute_step failing_services ''plan_0a1b2c3d'' (JStr ''step_2'') demo_after_step_1
          = (JNull, P')"
      "map_of (plans P') ''plan_0a1b2c3d'' = Some plan'"
      "steps plan' ! 1 = (steps ?p ! 1)\<lparr>status := FAILED, error := Some ''connection refused''\<rparr>"
      "\<forall>j. j \<noteq> 1 \<longrightarrow> steps plan' ! j = steps ?p ! j"
    by blast
  from r(4) have "steps plan' ! 0 = steps ?p ! 0" by simp
  with e r(3) have "status (steps plan' ! 1) = FAILED \<and>
      error (steps plan' ! 1) = Some ''connection refused'' \<and> status (steps plan' ! 0) = COMPLETED"
    by simp
  with r(1,2) have "\<exists>P' plan'.
      execute_step failing_services ''plan_0a1b2c3d'' (JStr ''step_2'') demo_after_step_1
        = (JNull, P') \<and>
      map_of (plans P') ''plan_0a1b2c3d'' = Some plan' \<and>
      status (steps plan' ! 1) = FAILED \<and>
      error (steps plan' ! 1) = Some ''connection refused'' \<and>
      status (steps plan' ! 0) = COMPLETED"
    by blast
  with a b c d show ?thesis by (intro conjI)
qed

section \<open>Claims about the plan generator\<close>

text \<open>
  Claim C5. When \<^verbatim>\<open>create_plan\<close> raises because no JSON could be extracted from the
  reply, because the extracted text does not parse, because \<^verbatim>\<open>complexity\<close> or \<^verbatim>\<open>steps\<close>
  is missing, or because the complexity is no member of the enumeration, then the plan
  table, the memory service with its plans store, and the registry are as before the call.
  The same holds when the interpreter raises on a parsed reply of another kind than the
  code expects; a list without the two fields makes \<^verbatim>\<open>data.keys()\<close> raise
  \<^verbatim>\<open>AttributeError\<close> while the message of the \<^verbatim>\<open>ValueError\<close> is built.
\<close>

theorem create_plan_fails_atomically:
  assumes "create_plan E goal_text ctx uid now P = (Inl e, P')"
    and "e = ValueError_no_json \<or> e = JSONDecodeError \<or> e = ValueError_missing_fields \<or>
         e = ValueError_complexity \<or> e = AttributeError \<or> e = TypeError \<or> e = KeyError"
  shows "plans P' = plans P \<and> memory P' = memory P \<and> tools P' = tools P"
proof -
  from assms(2) have ne: "\<And>msg. e \<noteq> StoreError msg" "\<And>msg. e \<noteq> ChatError msg"
    by auto
  obtain out l' where chat: "chat_planning E goal_text ctx (tools P) (ollama P) = (out, l')"
    by (cases "chat_planning E goal_text ctx (tools P) (ollama P)") auto
  show ?thesis
  proof (cases out)
    case (Inl msg)
    with chat assms(1) show ?thesis by (auto simp: create_plan_def)
  next
    case (Inr content)
    show ?thesis
    proof (cases "build_plan (json_loads E) goal_text uid now content")
      case (Inl e')
      with chat Inr assms(1) show ?thesis by (auto simp: create_plan_def)
    next
      case built: (Inr plan)
      obtain x plan' where u: "update_ready_status (tools P) plan = (x, plan')"
        by (cases "update_ready_status (tools P) plan") auto
      show ?thesis
      proof (cases x)
        case (Some e')
        with chat Inr built u assms(1) show ?thesis by (auto simp: create_plan_def)
      next
        case None
        with chat Inr built u assms(1) ne(1) show ?thesis
          by (auto simp: create_plan_def Let_def split: prod.splits option.splits)
      qed
    qed
  qed
qed

lemma prose_create_plan:
  "create_plan prose_services ''summarize known topics'' None ''22222222'' 0 demo_init =
     (Inl ValueError_no_json, demo_init)"
  by (simp add: create_plan_def prose_services_def reply_services_def build_plan_def Let_def
      extract_json_def try_fences_def startswith_def regex_findall_def strip_def is_space_def)

lemma list_create_plan:
  "create_plan list_services ''summarize known topics'' None ''22222222'' 0 demo_init =
     (Inl AttributeError, demo_init)"
  by (simp add: create_plan_def list_services_def reply_services_def known_reply_def
      build_plan_def Let_def extract_json_def strip_def is_space_def missing_fields_def)

theorem create_plan_fails_atomically_witness:
  "create_plan prose_services ''summarize known topics'' None ''22222222'' 0 demo_init =
     (Inl ValueError_no_json, demo_init) \<and>
   plans (snd (create_plan prose_services ''summarize known topics'' None ''22222222'' 0
              demo_init)) = [] \<and>
   create_plan list_services ''summarize known topics'' None ''22222222'' 0 demo_init =
     (Inl AttributeError, demo_init) \<and>
   plans (snd (create_plan list_services ''summarize known topics'' None ''22222222'' 0
              demo_init)) = [] \<and>
   plans demo_init = []"
proof -
  have "plans demo_init = []"
    by (simp add: demo_init_def init_planner_def register_builtin_tools_def register_tool_def)
  with create_plan_fails_atomically [OF prose_create_plan]
    create_plan_fails_atomically [OF list_create_plan] prose_create_plan list_create_plan
  show ?thesis by simp
qed

lemma split_lines_not_Nil [simp]: "split_lines s \<noteq> []"
  by (induction s) (auto split: list.splits)

lemma split_lines_append:
  "split_lines (xs @ CHR 0x0A # ys) = split_lines xs @ split_lines ys"
proof (induction xs)
  case Nil
  show ?case by simp
next
  case (Cons x xs)
  obtain l ls where l: "split_lines xs = l # ls"
    by (cases "split_lines xs") simp_all
  with Cons show ?case by simp
qed

lemma split_lines_one_line: "CHR 0x0A \<notin> set s \<Longrightarrow> split_lines s = [s]"
  by (induction s) auto

lemma join_lines_Cons_Cons: "join_lines ((x # l) # ls) = x # join_lines (l # ls)"
  by (cases ls) simp_all

lemma join_split_lines: "join_lines (split_lines s) = s"
proof (induction s)
  case Nil
  show ?case by simp
next
  case (Cons x xs)
  obtain l ls where l: "split_lines xs = l # ls"
    by (cases "split_lines xs") simp_all
  with Cons show ?case by (simp add: join_lines_Cons_Cons)
qed

lemma fence_loop_collect:
  "\<forall>l \<in> set ls. \<not> startswith (strip l) ''```'' \<Longrightarrow>
   fence_loop (ls @ rest) True acc = fence_loop rest True (acc @ ls)"
  by (induction ls arbitrary: acc) simp_all

lemma strip_fence_line: "startswith (strip (''```'' @ lang)) ''```''"
proof -
  have sp: "\<not> is_space CHR ''`''" by (simp add: is_space_def)
  then have a: "dropWhile is_space (''```'' @ lang) = ''```'' @ lang" by simp
  have "\<exists>zs. dropWhile is_space (rev lang @ ''```'') = zs @ ''```''"
    using sp by (cases "\<forall>x \<in> set (rev lang). is_space x") (auto simp: dropWhile_append)
  then obtain zs where "dropWhile is_space (rev lang @ ''```'') = zs @ ''```''" by blast
  then have "strip (''```'' @ lang) = ''```'' @ rev zs"
    unfolding strip_def a by simp
  then show ?thesis by (simp add: startswith_def)
qed

lemma try_fences_fenced:
  assumes "CHR 0x0A \<notin> set lang" and "loads body \<noteq> None"
    and "\<forall>line \<in> set (split_lines body). \<not> startswith (strip line) ''```''"
  shows "try_fences loads (fenced lang body) = Some body"
proof -
  have c: "contains (fenced lang body) ''```''"
    by (simp add: fenced_def startswith_def)
  from assms(1) have "CHR 0x0A \<notin> set (''```'' @ lang)" by simp
  then have l1: "split_lines (''```'' @ lang) = [''```'' @ lang]"
    by (rule split_lines_one_line)
  have "fenced lang body = (''```'' @ lang) @ CHR 0x0A # (body @ CHR 0x0A # ''```'')"
    by (simp add: fenced_def)
  then have "split_lines (fenced lang body) =
      split_lines (''```'' @ lang) @ split_lines body @ split_lines ''```''"
    by (simp only: split_lines_append)
  with l1 have sp: "split_lines (fenced lang body) = (''```'' @ lang) # (split_lines body @ [''```''])"
    by simp
  have s3: "startswith (strip ''```'') ''```''"
    using strip_fence_line [of "[]"] by simp
  have "fence_loop (split_lines (fenced lang body)) False [] =
      fence_loop (split_lines body @ [''```'']) True []"
    unfolding sp using strip_fence_line [of lang] by simp
  also have "\<dots> = fence_loop [''```''] True ([] @ split_lines body)"
    using assms(3) by (rule fence_loop_collect)
  also have "\<dots> = split_lines body" using s3 by simp
  finally have "fence_loop (split_lines (fenced lang body)) False [] = split_lines body" .
  with c assms(2) show ?thesis
    by (simp add: try_fences_def Let_def join_split_lines)
qed

lemma brace_loop_no_braces:
  "CHR ''{'' \<notin> set rest \<Longrightarrow> CHR ''}'' \<notin> set rest \<Longrightarrow>
   brace_loop loads text i rest brace_count start_idx = None"
  by (induction rest arbitrary: i) auto

lemma regex_findall_no_close: "CHR ''}'' \<notin> set text \<Longrightarrow> regex_findall text = []"
  by (auto simp: regex_findall_def Let_def dest: set_dropWhileD)

lemma extract_json_nothing:
  assumes "CHR ''{'' \<notin> set text" and "CHR ''}'' \<notin> set text" and "loads text = None"
    and "try_fences loads text = None"
  shows "extract_json loads text = []"
  using assms by (simp add: extract_json_def brace_loop_no_braces regex_findall_no_close)

text \<open>
  Claim C7 as stated fails on its third part: the reply
  \<^verbatim>\<open>```\<close>, \<^verbatim>\<open>42\<close>, \<^verbatim>\<open>```\<close> (three lines) has no brace and is not valid JSON, yet the
  second strategy of \<^verbatim>\<open>_extract_json\<close> returns the line between the fences, and
  \<^verbatim>\<open>create_plan\<close> goes on to raise \<^verbatim>\<open>TypeError\<close> at \<^verbatim>\<open>"complexity" not in data\<close>.
\<close>

theorem fenced_number_is_extracted:
  "CHR ''{'' \<notin> set (fenced [] ''42'') \<and> CHR ''}'' \<notin> set (fenced [] ''42'') \<and>
   known_reply ''42'' (JNum 42) (fenced [] ''42'') = None \<and>
   extract_json (known_reply ''42'' (JNum 42)) (fenced [] ''42'') = ''42'' \<and>
   create_plan number_services ''summarize known topics'' None ''33333333'' 0 demo_init =
     (Inl TypeError, demo_init)"
  by (simp add: fenced_def known_reply_def extract_json_def try_fences_def startswith_def
      strip_def is_space_def Let_def create_plan_def number_services_def reply_services_def
      build_plan_def on_value_def)

text \<open>
  Claim C7, amended. \<^verbatim>\<open>_extract_json\<close> returns a text that parses as it is; from a text
  that does not parse and consists of an opening fence line, a body that parses and has
  no line starting with a fence, and a closing fence line, it returns the body; and on a
  text without braces that does not parse and has nothing that parses between fence
  lines it returns the empty string, on which \<^verbatim>\<open>create_plan\<close> raises
  \<^verbatim>\<open>ValueError("LLM did not return valid JSON")\<close> and leaves plan table and store alone.
\<close>

theorem extract_json_round_trip:
  "(loads text \<noteq> None \<longrightarrow> extract_json loads text = text) \<and>
   (CHR 0x0A \<notin> set lang \<and> loads (fenced lang body) = None \<and> loads body \<noteq> None \<and>
      (\<forall>line \<in> set (split_lines body). \<not> startswith (strip line) ''```'') \<longrightarrow>
      extract_json loads (fenced lang body) = body) \<and>
   (CHR ''{'' \<notin> set text \<and> CHR ''}'' \<notin> set text \<and> loads text = None \<and>
      try_fences loads text = None \<longrightarrow>
      extract_json loads text = []) \<and>
   (chat_planning E goal_text ctx (tools P) (ollama P) = (Inr content, l') \<and>
      CHR ''{'' \<notin> set (strip content) \<and> CHR ''}'' \<notin> set (strip content) \<and>
      json_loads E (strip content) = None \<and> try_fences (json_loads E) (strip content) = None \<longrightarrow>
      create_plan E goal_text ctx uid now P = (Inl ValueError_no_json, P\<lparr>ollama := l'\<rparr>))"
proof (intro conjI impI; (elim conjE)?)
  assume "loads text \<noteq> None"
  then show "extract_json loads text = text" by (simp add: extract_json_def)
next
  assume "CHR 0x0A \<notin> set lang" and "loads body \<noteq> None"
    and "\<forall>line \<in> set (split_lines body). \<not> startswith (strip line) ''```''"
  then have "try_fences loads (fenced lang body) = Some body" by (rule try_fences_fenced)
  moreover assume "loads (fenced lang body) = None"
  ultimately show "extract_json loads (fenced lang body) = body"
    by (simp add: extract_json_def)
next
  assume "CHR ''{'' \<notin> set text" and "CHR ''}'' \<notin> set text" and "loads text = None"
    and "try_fences loads text = None"
  then show "extract_json loads text = []" by (rule extract_json_nothing)
next
  assume chat: "chat_planning E goal_text ctx (tools P) (ollama P) = (Inr content, l')"
  assume "CHR ''{'' \<notin> set (strip content)" and "CHR ''}'' \<notin> set (strip content)"
    and "json_loads E (strip content) = None"
    and "try_fences (json_loads E) (strip content) = None"
  then have "extract_json (json_loads E) (strip content) = []" by (rule extract_json_nothing)
  with chat show "create_plan E goal_text ctx uid now P = (Inl ValueError_no_json, P\<lparr>ollama := l'\<rparr>)"
    by (simp add: create_plan_def build_plan_def Let_def)
qed

theorem extract_json_round_trip_witness:
  "known_reply demo_reply demo_data demo_reply \<noteq> None \<and>
   extract_json (known_reply demo_reply demo_data) demo_reply = demo_reply \<and>
   CHR 0x0A \<notin> set ''json'' \<and>
   known_reply demo_reply demo_data (fenced ''json'' demo_reply) = None \<and>
   list_all (\<lambda>line. \<not> startswith (strip line) ''```'') (split_lines demo_reply) \<and>
   extract_json (known_reply demo_reply demo_data) (fenced ''json'' demo_reply) = demo_reply \<and>
   CHR ''{'' \<notin> set ''Sure! Here's your plan for you.'' \<and>
   CHR ''}'' \<notin> set ''Sure! Here's your plan for you.'' \<and>
   try_fences (\<lambda>s. None) ''Sure! Here's your plan for you.'' = None \<and>
   extract_json (\<lambda>s. None) ''Sure! Here's your plan for you.'' = [] \<and>
   chat_planning prose_services ''summarize known topics'' None (tools demo_init) (ollama demo_init)
     = (Inr ''Sure! Here's your plan for you.'', ()) \<and>
   strip ''Sure! Here's your plan for you.'' = ''Sure! Here's your plan for you.'' \<and>
   create_plan prose_services ''summarize known topics'' None ''22222222'' 0 demo_init =
     (Inl ValueError_no_json, demo_init\<lparr>ollama := ()\<rparr>)"
proof -
  let ?loads = "known_reply demo_reply demo_data"
  let ?prose = "''Sure! Here's your plan for you.''"
  note thm1 = extract_json_round_trip
    [of ?loads demo_reply "''json''" demo_reply prose_services "''summarize known topics''" None
      demo_init ?prose "()" "''22222222''" 0]
  note thm2 = extract_json_round_trip
    [of "\<lambda>s. None" ?prose "''json''" demo_reply prose_services "''summarize known topics''" None
      demo_init ?prose "()" "''22222222''" 0]
  have a1: "?loads demo_reply \<noteq> None" by (simp add: known_reply_def)
  have b1: "CHR 0x0A \<notin> set ''json''" by simp
  have b2: "?loads (fenced ''json'' demo_reply) = None"
    by (simp add: known_reply_def fenced_def demo_reply_def)
  have b3: "list_all (\<lambda>line. \<not> startswith (strip line) ''```'') (split_lines demo_reply)"
    by (simp add: demo_reply_def startswith_def strip_def is_space_def)
  then have b3': "\<forall>line \<in> set (split_lines demo_reply). \<not> startswith (strip line) ''```''"
    by (simp add: list_all_iff)
  have c1: "CHR ''{'' \<notin> set ?prose" by simp
  have c2: "CHR ''}'' \<notin> set ?prose" by simp
  have c3: "try_fences (\<lambda>s. None) ?prose = None" by (simp add: try_fences_def Let_def)
  have d1: "chat_planning prose_services ''summarize known topics'' None (tools demo_init)
      (ollama demo_init) = (Inr ?prose, ())"
    by (simp add: prose_services_def reply_services_def)
  have d2: "strip ?prose = ?prose" by (simp add: strip_def is_space_def)
  have d3: "json_loads prose_services ?prose = None" "json_loads prose_services = (\<lambda>s. None)"
    by (simp_all add: prose_services_def reply_services_def)
  from thm1 a1 have r1: "extract_json ?loads demo_reply = demo_reply" by blast
  from thm1 a1 b1 b2 b3' have r2: "extract_json ?loads (fenced ''json'' demo_reply) = demo_reply"
    by blast
  from thm2 c1 c2 c3 have r3: "extract_json (\<lambda>s. None) ?prose = []" by blast
  from thm2 d1 d2 d3 c1 c2 c3
  have r4: "create_plan prose_services ''summarize known topics'' None ''22222222'' 0 demo_init =
     (Inl ValueError_no_json, demo_init\<lparr>ollama := ()\<rparr>)"
    by simp
  from a1 r1 b1 b2 b3 r2 c1 c2 c3 r3 d1 d2 r4 show ?thesis by (intro conjI)
qed

section \<open>Claims that fail on a reply with an entry of another kind\<close>

lemma nested_created_plans:
  "plans nested_created =
     [(''plan_66666666'',
       nested_plan (step_of ''A'' JNull [] [] READY JNull None) PENDING PENDING
         [(''reasoning'', JStr [])])]"
  by (simp add: nested_created_def nested_plan_def nested_services_def nested_reply_def
      nested_data_def eval_create)

lemma nested_created_rest:
  "tools nested_created = tools demo_init" "memory nested_created = ()"
  "ollama nested_created = ()"
  by (simp_all add: nested_created_def nested_services_def nested_reply_def nested_data_def
      eval_create)

lemma nested_executed_eq:
  "execute_step nested_services ''plan_66666666'' (JStr ''A'') nested_created =
     (JNull,
      nested_created\<lparr>plans :=
        [(''plan_66666666'',
          nested_plan
            (step_of ''A'' JNull [] [] FAILED (JStr ''done'') (Some (demo_str_exn TypeError)))
            READY PENDING [(''reasoning'', JStr []), (''output_A'', JStr ''done'')])]\<rparr>)"
  by (simp add: nested_created_plans nested_created_rest nested_plan_def nested_services_def
      eval_execute)

lemma nested_executed_plans:
  "plans nested_executed =
     [(''plan_66666666'',
       nested_plan
         (step_of ''A'' JNull [] [] FAILED (JStr ''done'') (Some (demo_str_exn TypeError)))
         READY PENDING [(''reasoning'', JStr []), (''output_A'', JStr ''done'')])]"
  by (simp add: nested_executed_def nested_executed_eq)

text \<open>
  Claim C3, evaluated. The backend plans step \<^verbatim>\<open>A\<close>, step \<^verbatim>\<open>C\<close> depending on \<^verbatim>\<open>A\<close>, and step
  \<^verbatim>\<open>B\<close> with the dependency entries \<^verbatim>\<open>"A"\<close> and \<^verbatim>\<open>["x"]\<close>; \<^verbatim>\<open>create_plan\<close> returns the plan
  with \<^verbatim>\<open>A\<close> ready. In \<^verbatim>\<open>execute_step\<close> for \<^verbatim>\<open>A\<close> the readiness pass sets \<^verbatim>\<open>C\<close> to
  \<^verbatim>\<open>READY\<close> and then raises at \<^verbatim>\<open>B\<close>, and the \<^verbatim>\<open>except\<close> branch sets \<^verbatim>\<open>A\<close> to \<^verbatim>\<open>FAILED\<close>. So
  \<^verbatim>\<open>C\<close> is \<^verbatim>\<open>READY\<close> while its only dependency is not among the completed ids, and the next
  wave consists of \<^verbatim>\<open>C\<close>.
\<close>

theorem ready_step_with_failed_dependency:
  "fst (create_plan nested_services ''look it up'' None ''66666666'' 0 demo_init) =
     Inr (nested_plan (step_of ''A'' JNull [] [] READY JNull None) PENDING PENDING
            [(''reasoning'', JStr [])]) \<and>
   fst (execute_step nested_services ''plan_66666666'' (JStr ''A'') nested_created) = JNull \<and>
   map_of (plans nested_executed) ''plan_66666666'' =
     Some (nested_plan
             (step_of ''A'' JNull [] [] FAILED (JStr ''done'') (Some (demo_str_exn TypeError)))
             READY PENDING [(''reasoning'', JStr []), (''output_A'', JStr ''done'')]) \<and>
   status (steps (the (map_of (plans nested_executed) ''plan_66666666'')) ! 1) = READY \<and>
   depends_on (steps (the (map_of (plans nested_executed) ''plan_66666666'')) ! 1)
     = JArr [JStr ''A''] \<and>
   completed_ids (steps (the (map_of (plans nested_executed) ''plan_66666666''))) = Inr [] \<and>
   fst (get_next_steps ''plan_66666666'' nested_executed) =
     Inr [step_of ''C'' JNull [JStr ''A''] [] READY JNull None]"
  apply (intro conjI)
        apply (simp add: nested_plan_def nested_services_def nested_reply_def nested_data_def
      eval_create)
       apply (simp add: nested_executed_eq)
      apply (simp add: nested_executed_plans)
     apply (simp add: nested_executed_plans nested_plan_def step_of_def)
    apply (simp add: nested_executed_plans nested_plan_def step_of_def)
   apply (simp add: nested_executed_plans nested_plan_def step_of_def)
  apply (simp add: get_next_steps_def nested_executed_plans nested_plan_def step_of_def
      eval_pass)
  done

text \<open>
  Claim C8, evaluated, on the same reply. \<^verbatim>\<open>execute_step\<close> for \<^verbatim>\<open>A\<close>: the handler returns,
  the step is marked \<^verbatim>\<open>COMPLETED\<close> and its output and the plan context are written; then
  the readiness pass raises and the same call marks the step \<^verbatim>\<open>FAILED\<close> and writes its
  error text. The step ends \<^verbatim>\<open>FAILED\<close> with an output and an error text both, and
  \<^verbatim>\<open>execute_step\<close> returns \<^verbatim>\<open>None\<close>.
\<close>

theorem completed_step_turns_failed:
  "map_of (plans nested_created) ''plan_66666666'' =
     Some (nested_plan (step_of ''A'' JNull [] [] READY JNull None) PENDING PENDING
             [(''reasoning'', JStr [])]) \<and>
   handler_outcome nested_services nested_created
     (nested_plan (step_of ''A'' JNull [] [] READY JNull None) PENDING PENDING
        [(''reasoning'', JStr [])]) 0 = (Inr (JStr ''done''), (), ()) \<and>
   update_ready_status (tools nested_created)
     (completed_plan
        (nested_plan (step_of ''A'' JNull [] [] READY JNull None) PENDING PENDING
           [(''reasoning'', JStr [])]) 0 ''output_A'' (JStr ''done'')) =
     (Some TypeError,
      nested_plan (step_of ''A'' JNull [] [] COMPLETED (JStr ''done'') None) READY PENDING
        [(''reasoning'', JStr []), (''output_A'', JStr ''done'')]) \<and>
   fst (execute_step nested_services ''plan_66666666'' (JStr ''A'') nested_created) = JNull \<and>
   status (steps (the (map_of (plans nested_executed) ''plan_66666666'')) ! 0) = FAILED \<and>
   output_data (steps (the (map_of (plans nested_executed) ''plan_66666666'')) ! 0)
     = JStr ''done'' \<and>
   error (steps (the (map_of (plans nested_executed) ''plan_66666666'')) ! 0)
     = Some (demo_str_exn TypeError) \<and>
   map_of (plan_context (the (map_of (plans nested_executed) ''plan_66666666''))) ''output_A''
     = Some (JStr ''done'')"
  apply (intro conjI)
         apply (simp add: nested_created_plans)
        apply (simp add: handler_outcome_def started_def nested_plan_def nested_services_def
      eval_execute)
       apply (simp add: completed_plan_def nested_created_rest nested_plan_def step_of_def
      demo_init_def init_planner_def register_builtin_tools_def register_tool_def eval_pass)
      apply (simp add: nested_executed_eq)
     apply (simp add: nested_executed_plans nested_plan_def step_of_def)
    apply (simp add: nested_executed_plans nested_plan_def step_of_def)
   apply (simp add: nested_executed_plans nested_plan_def step_of_def)
  apply (simp add: nested_executed_plans nested_plan_def)
  done



text \<open>The handler itself turns every failure of the save operation into a payload.\<close>

lemma execute_save_fact_catches:
  assumes "tool_input step = JObj d"
    and "save_topic_fact E (dict_get d ''topic_name'' (JStr [])) (dict_get d ''fact_type'' (JStr ''WHAT''))
           (dict_get d ''fact'' (JStr [])) m = (Some e, m')"
  shows "execute_save_fact E step m =
           (Inr (JObj [(''success'', JBool False), (''error'', JStr e)]), m')"
  using assms by (simp add: execute_save_fact_def)


section \<open>Claim about the wave loop\<close>

lemma twin_created_eq:
  "twin_created =
     demo_init\<lparr>plans :=
       [(''plan_44444444'',
         twin_plan [twin_step READY JNull, twin_step READY JNull] [(''reasoning'', JStr [])])]\<rparr>"
  by (simp add: twin_created_def twin_plan_def twin_step_def twin_services_def twin_reply_def
      twin_data_def eval_create)

lemma twin_first_wave:
  "get_next_steps ''plan_44444444'' twin_created =
     (Inr [twin_step READY JNull, twin_step READY JNull], twin_created)"
  "run_wave twin_services ''plan_44444444'' [twin_step READY JNull, twin_step READY JNull]
     results twin_created =
     (results @ [(JStr [], JStr ''done''), (JStr [], JNull)], twin_stuck)"
   apply (simp add: twin_created_eq get_next_steps_def twin_plan_def twin_step_def step_of_def
      eval_pass)
  apply (simp add: twin_created_eq twin_stuck_def twin_plan_def twin_step_def twin_services_def
      demo_init_def init_planner_def register_builtin_tools_def register_tool_def eval_execute)
  done

lemma twin_later_wave:
  "get_next_steps ''plan_44444444'' twin_stuck = (Inr [twin_step READY JNull], twin_stuck)"
  "run_wave twin_services ''plan_44444444'' [twin_step READY JNull] results twin_stuck =
     (results @ [(JStr [], JNull)], twin_stuck)"
   apply (simp add: twin_stuck_def get_next_steps_def twin_plan_def twin_step_def step_of_def
      eval_pass)
  apply (simp add: twin_stuck_def execute_step_def twin_plan_def twin_step_def step_of_def)
  done

lemma twin_stuck_forever:
  "wave_loop twin_services ''plan_44444444'' results twin_stuck = None"
proof (rule ccontr)
  assume "wave_loop twin_services ''plan_44444444'' results twin_stuck \<noteq> None"
  then obtain y where y: "wave_loop twin_services ''plan_44444444'' results twin_stuck = Some y"
    by auto
  have "(\<lambda>x y. \<not> (fst (fst (fst x)) = twin_services \<and> snd (fst (fst x)) = ''plan_44444444'' \<and>
            snd x = twin_stuck))
      (((twin_services, ''plan_44444444''), results), twin_stuck) y"
  proof (rule wave_loop.raw_induct
      [where Pa = "\<lambda>x y. \<not> (fst (fst (fst x)) = twin_services \<and>
          snd (fst (fst x)) = ''plan_44444444'' \<and> snd x = twin_stuck)"])
    show "wave_loop twin_services ''plan_44444444'' results twin_stuck = Some y" by (rule y)
  next
    fix loop :: "(unit, unit) services \<Rightarrow> string \<Rightarrow> (json \<times> json) list \<Rightarrow> (unit, unit) Planner
        \<Rightarrow> ((exn + (json \<times> json) list) \<times> (unit, unit) Planner) option"
    fix E pid results P y
    assume IH: "\<And>E pid results P y. loop E pid results P = Some y \<Longrightarrow>
        \<not> (fst (fst (fst (((E, pid), results), P))) = twin_services \<and>
           snd (fst (fst (((E, pid), results), P))) = ''plan_44444444'' \<and>
           snd (((E, pid), results), P) = twin_stuck)"
    assume step: "(case get_next_steps pid P of
       (Inl e, P1) \<Rightarrow> Some (Inl e, P1)
     | (Inr next_steps, P1) \<Rightarrow>
         if next_steps = [] then Some (Inr results, P1)
         else case run_wave E pid next_steps results P1 of
              (results', P2) \<Rightarrow> loop E pid results' P2) = Some y"
    show "\<not> (fst (fst (fst (((E, pid), results), P))) = twin_services \<and>
           snd (fst (fst (((E, pid), results), P))) = ''plan_44444444'' \<and>
           snd (((E, pid), results), P) = twin_stuck)"
    proof
      assume "fst (fst (fst (((E, pid), results), P))) = twin_services \<and>
           snd (fst (fst (((E, pid), results), P))) = ''plan_44444444'' \<and>
           snd (((E, pid), results), P) = twin_stuck"
      then have eq: "E = twin_services" "pid = ''plan_44444444''" "P = twin_stuck" by simp_all
      from step
      have "loop twin_services ''plan_44444444'' (results @ [(JStr [], JNull)]) twin_stuck = Some y"
        unfolding eq by (simp add: twin_later_wave del: run_wave.simps)
      from IH [OF this] show False by simp
    qed
  qed
  then show False by simp
qed

text \<open>
  Claim C4, evaluated. The backend plans two independent steps, the first with the id
  \<^verbatim>\<open>step_2\<close> and the second without an id, to which \<^verbatim>\<open>create_plan\<close> gives the id
  \<^verbatim>\<open>step_2\<close> again. Both steps become \<^verbatim>\<open>READY\<close>; \<^verbatim>\<open>execute_step\<close> finds the first of them
  both times, the second stays \<^verbatim>\<open>READY\<close> in every later wave, and
  \<^verbatim>\<open>execute_full_plan\<close> never returns.
\<close>

theorem twin_plan_never_returns:
  "fst (create_plan twin_services ''say hello twice'' None ''44444444'' 0 demo_init) =
     Inr (twin_plan [twin_step READY JNull, twin_step READY JNull] [(''reasoning'', JStr [])]) \<and>
   map_of (plans twin_created) ''plan_44444444'' =
     Some (twin_plan [twin_step READY JNull, twin_step READY JNull] [(''reasoning'', JStr [])]) \<and>
   step_id (twin_step READY JNull) = JStr ''step_2'' \<and>
   execute_full_plan twin_services ''plan_44444444'' twin_created = None"
proof (intro conjI)
  show "fst (create_plan twin_services ''say hello twice'' None ''44444444'' 0 demo_init) =
     Inr (twin_plan [twin_step READY JNull, twin_step READY JNull] [(''reasoning'', JStr [])])"
    by (simp add: twin_plan_def twin_step_def twin_services_def twin_reply_def twin_data_def
        eval_create)
  show m: "map_of (plans twin_created) ''plan_44444444'' =
     Some (twin_plan [twin_step READY JNull, twin_step READY JNull] [(''reasoning'', JStr [])])"
    by (simp add: twin_created_eq)
  show "step_id (twin_step READY JNull) = JStr ''step_2''"
    by (simp add: twin_step_def step_of_def)
  have "wave_loop twin_services ''plan_44444444'' [] twin_created = None"
    by (subst wave_loop.simps)
      (simp add: twin_first_wave twin_stuck_forever del: run_wave.simps)
  with m show "execute_full_plan twin_services ''plan_44444444'' twin_created = None"
    by (simp add: execute_full_plan_def)
qed


end
